theory Spec2Isabelle
  imports Main
begin

section \<open>JavaScript values shared by the models\<close>

text \<open>
  An \<open>Error\<close> object is its \<open>name\<close> and its \<open>message\<close>. A thrown error is the
  left summand of a result, a returned value the right one.
\<close>

datatype js_error = JsError (name: string) (message: string)

type_synonym attrs = "(string \<times> string) list"

subsection \<open>Number to string, as a template literal prints it\<close>

definition digit_char :: "nat \<Rightarrow> char" where
  "digit_char d = char_of (48 + d)"

function string_of_nat :: "nat \<Rightarrow> string" where
  "string_of_nat n =
     (if n < 10 then [digit_char n] else string_of_nat (n div 10) @ [digit_char (n mod 10)])"
  by pat_completeness auto
termination
  by (relation "measure id") auto

subsection \<open>\<open>parseInt(s, 10)\<close>\<close>

text \<open>
  \<open>parseInt\<close> skips leading white space, reads an optional sign and then the longest
  run of decimal digits; with no digit there the result is \<open>NaN\<close>, here \<open>None\<close>.
  The argument is converted to a string first, so \<open>null\<close> is read as the text
  \<open>null\<close>. Strings are byte strings and the result is an exact integer: the white space
  skipped is the ASCII one (JavaScript also skips U+00A0, U+FEFF and the other Unicode
  spaces), and the rounding of JavaScript numbers above \<open>2^53\<close> is not modelled.
\<close>

definition is_space :: "char \<Rightarrow> bool" where
  "is_space c = (c \<in> set [CHR '' '', CHR 0x09, CHR 0x0A, CHR 0x0B, CHR 0x0C, CHR 0x0D])"

definition is_digit :: "char \<Rightarrow> bool" where
  "is_digit c = (48 \<le> (of_char c :: nat) \<and> (of_char c :: nat) \<le> 57)"

definition digit_val :: "char \<Rightarrow> int" where
  "digit_val c = int (of_char c) - 48"

definition digits_val :: "string \<Rightarrow> int" where
  "digits_val ds = foldl (\<lambda>acc c. 10 * acc + digit_val c) 0 ds"

definition js_parseInt10 :: "string \<Rightarrow> int option" where
  "js_parseInt10 s =
     (let t = dropWhile is_space s;
          neg = (t \<noteq> [] \<and> hd t = CHR ''-'');
          u = (if t \<noteq> [] \<and> (hd t = CHR ''-'' \<or> hd t = CHR ''+'') then tl t else t);
          ds = takeWhile is_digit u
      in if ds = [] then None
         else Some (if neg then - digits_val ds else digits_val ds))"

definition js_to_string :: "string option \<Rightarrow> string" where
  "js_to_string v = (case v of None \<Rightarrow> ''null'' | Some s \<Rightarrow> s)"

section \<open>The request core: \<open>performRequestCore\<close>\<close>

text \<open>
  A \<open>Response\<close> carries its \<open>ok\<close> flag, its status, the outcome of \<open>text()\<close> and its
  headers. One call of \<open>fetch\<close> either settles (resolved with a response or rejected
  with an error) or is still pending when the abort signal fires; without an armed timer
  nothing aborts it and the call never settles.
\<close>

record response =
  ok :: bool
  status :: nat
  text_result :: "js_error + string"
  headers :: attrs

datatype fetched = Resolved response | Rejected js_error

datatype network = Settles fetched | Pending

text \<open>
  \<open>timeout\<close> is a JavaScript number or \<open>NaN\<close>/\<open>undefined\<close> (\<open>None\<close>); the timer is armed
  when it is truthy. \<open>maxRetries\<close> is taken to be an integer: \<open>handleAction\<close> never passes
  \<open>NaN\<close>, and the loss of precision of very large numbers is not modelled.
\<close>

definition timer_armed :: "int option \<Rightarrow> bool" where
  "timer_armed timeout = (case timeout of None \<Rightarrow> False | Some t \<Rightarrow> t \<noteq> 0)"

text \<open>
  The body of the \<open>try\<close> block of one attempt: \<open>None\<close> when the awaited call never
  settles, otherwise what the block returns (\<open>Inr\<close>) or throws (\<open>Inl\<close>).
\<close>

definition try_attempt :: "int option \<Rightarrow> network \<Rightarrow> (js_error + response) option" where
  "try_attempt timeout nw =
     (case nw of
        Pending \<Rightarrow>
          (if timer_armed timeout
           then Some (Inl (JsError ''AbortError'' ''The operation was aborted.''))
           else None)
      | Settles (Rejected e) \<Rightarrow> Some (Inl e)
      | Settles (Resolved r) \<Rightarrow>
          (if \<not> ok r then
             (case text_result r of
                Inl e \<Rightarrow> Some (Inl e)
              | Inr txt \<Rightarrow>
                  Some (Inl (JsError ''Error''
                    (''HTTP error '' @ string_of_nat (status r) @ '': '' @ txt))))
           else Some (Inr r)))"

text \<open>
  The \<open>while\<close> loop. \<open>fetch k\<close> is what the network does at the \<open>k\<close>-th call (counted
  from 1); the state is \<open>attempts\<close> and the number of calls of \<open>fetch\<close> made so far.
  The result is the way the function was left, \<open>None\<close> when it never returns (the
  awaited call never settles), and the number of network calls made: \<open>Returned\<close> is the
  \<open>return response\<close> inside the loop, \<open>Thrown\<close> a \<open>throw\<close> inside the \<open>catch\<close> block,
  and \<open>LoopExhausted\<close> the \<open>throw\<close> that follows the loop.
\<close>

datatype core_exit = Returned response | Thrown js_error | LoopExhausted

definition no_response_error :: js_error where
  "no_response_error = JsError ''Error''
     ''No response returned from performRequestCore (all attempts failed without producing a response).''"

definition timed_out_error :: js_error where
  "timed_out_error = JsError ''Error'' ''Request timed out''"

text \<open>What the caller of \<open>performRequestCore\<close> receives.\<close>

definition surfaced :: "core_exit \<Rightarrow> js_error + response" where
  "surfaced x = (case x of Returned r \<Rightarrow> Inr r | Thrown e \<Rightarrow> Inl e | LoopExhausted \<Rightarrow> Inl no_response_error)"

function core_loop ::
  "(nat \<Rightarrow> network) \<Rightarrow> int option \<Rightarrow> int \<Rightarrow> nat \<Rightarrow> nat \<Rightarrow> core_exit option \<times> nat"
where
  "core_loop fetch timeout maxAttempts attempts calls =
     (if int attempts < maxAttempts then
        (case try_attempt timeout (fetch (calls + 1)) of
           None \<Rightarrow> (None, calls + 1)
         | Some (Inr r) \<Rightarrow> (Some (Returned r), calls + 1)
         | Some (Inl e) \<Rightarrow>
             (if name e = ''AbortError'' then (Some (Thrown timed_out_error), calls + 1)
              else if int (attempts + 1) \<ge> maxAttempts then (Some (Thrown e), calls + 1)
              else core_loop fetch timeout maxAttempts (attempts + 1) (calls + 1)))
      else (Some LoopExhausted, calls))"
  by pat_completeness auto
termination
  by (relation "measure (\<lambda>(fetch, timeout, maxAttempts, attempts, calls). nat (maxAttempts - int attempts))")
     auto

declare core_loop.simps [simp del]

definition performRequestCore ::
  "(nat \<Rightarrow> network) \<Rightarrow> int option \<Rightarrow> int \<Rightarrow> core_exit option \<times> nat"
where
  "performRequestCore fetch timeout maxRetries = core_loop fetch timeout (maxRetries + 1) 0 0"

text \<open>
  The resolution of \<open>maxRetries\<close> in \<open>handleAction\<close>:
  \<open>parseInt(retryValue, 10) || 1\<close>, where \<open>retryValue\<close> is the inherited \<open>x-retry\<close>
  attribute or \<open>null\<close>.
\<close>

definition resolveMaxRetries :: "string option \<Rightarrow> int" where
  "resolveMaxRetries retryValue =
     (case js_parseInt10 (js_to_string retryValue) of
        None \<Rightarrow> 1
      | Some n \<Rightarrow> if n = 0 then 1 else n)"

text \<open>Networks used as concrete inputs.\<close>

definition failed_to_fetch :: js_error where
  "failed_to_fetch = JsError ''TypeError'' ''Failed to fetch''"

definition net_always_pending :: "nat \<Rightarrow> network" where
  "net_always_pending k = Pending"

definition net_always_rejects :: "nat \<Rightarrow> network" where
  "net_always_rejects k = Settles (Rejected failed_to_fetch)"

definition ok_response :: response where
  "ok_response = \<lparr>ok = True, status = 200, text_result = Inr ''<p>hi</p>'', headers = []\<rparr>"

definition net_pending_then_ok :: "nat \<Rightarrow> network" where
  "net_pending_then_ok k = (if k = 1 then Pending else Settles (Resolved ok_response))"

definition net_always_ok :: "nat \<Rightarrow> network" where
  "net_always_ok k = Settles (Resolved ok_response)"

text \<open>
  An attempt fails plainly when its \<open>try\<close> block throws an error whose name is not
  \<open>AbortError\<close>: a rejected call, a non-success status, or a failing \<open>text()\<close>.
\<close>

definition fails_plain :: "int option \<Rightarrow> network \<Rightarrow> bool" where
  "fails_plain timeout nw =
     (case try_attempt timeout nw of Some (Inl e) \<Rightarrow> name e \<noteq> ''AbortError'' | _ \<Rightarrow> False)"

section \<open>Elements and the attribute schema\<close>

text \<open>
  An element is its tag name, its own attributes and its parent element, if any; this is
  all the configuration resolver reads of the document.
\<close>

datatype element = Element (tagName: string) (attributes: attrs) (parentElement: "element option")

definition getAttribute :: "element \<Rightarrow> string \<Rightarrow> string option" where
  "getAttribute e a = map_of (attributes e) a"

definition hasAttribute :: "element \<Rightarrow> string \<Rightarrow> bool" where
  "hasAttribute e a = (map_of (attributes e) a \<noteq> None)"

text \<open>A string is truthy when it is neither \<open>null\<close> nor empty.\<close>

definition truthy :: "string option \<Rightarrow> bool" where
  "truthy v = (case v of None \<Rightarrow> False | Some s \<Rightarrow> s \<noteq> [])"

definition ACTIONS :: "string list" where
  "ACTIONS = [''x-get'', ''x-post'', ''x-put'', ''x-delete'', ''x-patch'']"

definition INHERITABLE_ATTRIBUTES :: "string list" where
  "INHERITABLE_ATTRIBUTES =
     [''x-target'', ''x-swap'', ''x-serialize'', ''x-trigger'', ''x-loading-class'',
      ''x-indicator'', ''x-retry'', ''x-timeout'', ''x-focus'', ''x-debounce'']"

subsection \<open>String helpers of the resolver\<close>

definition upper_char :: "char \<Rightarrow> char" where
  "upper_char c =
     (if 97 \<le> (of_char c :: nat) \<and> (of_char c :: nat) \<le> 122 then char_of ((of_char c :: nat) - 32) else c)"

definition lower_char :: "char \<Rightarrow> char" where
  "lower_char c =
     (if 65 \<le> (of_char c :: nat) \<and> (of_char c :: nat) \<le> 90 then char_of ((of_char c :: nat) + 32) else c)"

definition toUpperCase :: "string \<Rightarrow> string" where
  "toUpperCase s = map upper_char s"

definition toLowerCase :: "string \<Rightarrow> string" where
  "toLowerCase s = map lower_char s"

definition startsWith :: "string \<Rightarrow> string \<Rightarrow> bool" where
  "startsWith s p = (take (length p) s = p)"

text \<open>\<open>s.replace(pat, rep)\<close> with a string pattern replaces the first occurrence only.\<close>

fun js_replace :: "string \<Rightarrow> string \<Rightarrow> string \<Rightarrow> string" where
  "js_replace [] pat rep = (if pat = [] then rep else [])"
| "js_replace (c # cs) pat rep =
     (if startsWith (c # cs) pat then rep @ drop (length pat) (c # cs)
      else c # js_replace cs pat rep)"

definition capitalize :: "string \<Rightarrow> string" where
  "capitalize str = (case str of [] \<Rightarrow> [] | c # cs \<Rightarrow> upper_char c # cs)"

subsection \<open>Attribute inheritance and the method\<close>

text \<open>The \<open>while (currentElement)\<close> walk up the ancestor chain.\<close>

fun inherit_walk :: "element option \<Rightarrow> string \<Rightarrow> string option" where
  "inherit_walk None attributeName = None"
| "inherit_walk (Some (Element t as p)) attributeName =
     (if map_of as attributeName \<noteq> None then map_of as attributeName
      else inherit_walk p attributeName)"

definition getAttributeWithInheritance :: "element \<Rightarrow> string \<Rightarrow> string option" where
  "getAttributeWithInheritance e attributeName =
     (if attributeName \<notin> set INHERITABLE_ATTRIBUTES then getAttribute e attributeName
      else inherit_walk (Some e) attributeName)"

definition hasAttributeWithInheritance :: "element \<Rightarrow> string \<Rightarrow> bool" where
  "hasAttributeWithInheritance e attributeName = (getAttributeWithInheritance e attributeName \<noteq> None)"

definition getMethod :: "element \<Rightarrow> string" where
  "getMethod e =
     (case find (hasAttributeWithInheritance e) ACTIONS of
        Some attr \<Rightarrow> toUpperCase (js_replace attr ''x-'' [])
      | None \<Rightarrow> ''GET'')"

text \<open>
  The method as the specification words it, read on the element's own attributes: the
  first action-kind attribute in the fixed order, \<open>GET\<close> when there is none.
\<close>

definition first_action_method :: "attrs \<Rightarrow> string" where
  "first_action_method as =
     (if map_of as ''x-get'' \<noteq> None then ''GET''
      else if map_of as ''x-post'' \<noteq> None then ''POST''
      else if map_of as ''x-put'' \<noteq> None then ''PUT''
      else if map_of as ''x-delete'' \<noteq> None then ''DELETE''
      else if map_of as ''x-patch'' \<noteq> None then ''PATCH''
      else ''GET'')"

text \<open>The \<open>maxRetries\<close> that \<open>handleAction\<close> puts into the request descriptor.\<close>

definition handleAction_maxRetries :: "element \<Rightarrow> int" where
  "handleAction_maxRetries e = resolveMaxRetries (getAttributeWithInheritance e ''x-retry'')"

text \<open>The \<open>timeout\<close> of the descriptor: \<open>parseInt(timeoutValue, 10)\<close>.\<close>

definition handleAction_timeout :: "element \<Rightarrow> int option" where
  "handleAction_timeout e = js_parseInt10 (js_to_string (getAttributeWithInheritance e ''x-timeout''))"

section \<open>The engine's options, errors and effects\<close>

text \<open>
  Of a JavaScript value stored in \<open>onError\<close> or found on \<open>window\<close> the engine only asks
  whether \<open>typeof\<close> is \<open>function\<close>; a function is identified by a name. The CSRF token
  is a literal or a zero-argument provider.
\<close>

datatype js_value = JsFunction string | JsNotFunction

datatype csrf = TokenValue string | TokenProvider "unit \<Rightarrow> string"

datatype hook = HookOk | HookThrows js_error

record partial =
  onError :: "js_value option"
  csrfToken :: "csrf option"
  defaultSwapOption :: string
  autoFocus :: bool
  hooks :: "string \<Rightarrow> hook list"

text \<open>\<open>if (this.csrfToken)\<close> and the value written under \<open>X-CSRF-Token\<close>.\<close>

definition csrf_active :: "partial \<Rightarrow> bool" where
  "csrf_active p =
     (case csrfToken p of None \<Rightarrow> False | Some (TokenValue s) \<Rightarrow> s \<noteq> [] | Some (TokenProvider f) \<Rightarrow> True)"

definition csrf_value :: "partial \<Rightarrow> string" where
  "csrf_value p =
     (case csrfToken p of None \<Rightarrow> [] | Some (TokenValue s) \<Rightarrow> s | Some (TokenProvider f) \<Rightarrow> f ())"

text \<open>
  What the engine does to the world, in the order it does it. A window handler and the
  \<open>onError\<close> callback are called with the error and the triggering element (absent when
  the caller has none).
\<close>

datatype effect =
    CallWindowHandler string js_error element
  | CallOnError string js_error "element option"
  | ConsoleError string
  | SetInnerHTML element string
  | Confirm string
  | DispatchEvent string
  | NetworkCalls string string nat
  | SwapApplied string string
  | StopInfiniteScroll

definition error_notice :: "js_error \<Rightarrow> string" where
  "error_notice e = ''<div class=\"error\">An error occurred: '' @ message e @ ''</div>''"

definition is_function :: "js_value option \<Rightarrow> bool" where
  "is_function v = (case v of Some (JsFunction f) \<Rightarrow> True | _ \<Rightarrow> False)"

definition function_name :: "js_value option \<Rightarrow> string" where
  "function_name v = (case v of Some (JsFunction f) \<Rightarrow> f | _ \<Rightarrow> [])"

definition handleError :: "partial \<Rightarrow> js_error \<Rightarrow> element option \<Rightarrow> element option \<Rightarrow> effect list" where
  "handleError p error elt targetElement =
     (if is_function (onError p) then [CallOnError (function_name (onError p)) error elt]
      else ConsoleError ''Error:'' #
           (case targetElement of
              None \<Rightarrow> []
            | Some t \<Rightarrow> [SetInnerHTML t (error_notice error)]))"

text \<open>The \<open>catch\<close> block of \<open>handleAction\<close>; \<open>window\<close> maps a property name to its value.\<close>

definition handleAction_catch ::
  "partial \<Rightarrow> (string \<Rightarrow> js_value option) \<Rightarrow> js_error \<Rightarrow> element \<Rightarrow> element \<Rightarrow> effect list"
where
  "handleAction_catch p window error elt targetElement =
     (let onErrorAttr = getAttribute elt ''x-on-error'' in
      if truthy onErrorAttr \<and> is_function (window (the onErrorAttr))
      then [CallWindowHandler (the onErrorAttr) error elt]
      else if is_function (onError p) then [CallOnError (function_name (onError p)) error (Some elt)]
      else [ConsoleError ''Request failed:'', SetInnerHTML targetElement (error_notice error)])"

text \<open>\<open>runHooks\<close>: every callback of the phase in registration order, a failure handled
  on the spot without stopping the others.\<close>

definition runHooks :: "partial \<Rightarrow> string \<Rightarrow> element option \<Rightarrow> element option \<Rightarrow> effect list" where
  "runHooks p hookName elt targetElement =
     concat (map (\<lambda>callback. case callback of
                    HookOk \<Rightarrow> []
                  | HookThrows error \<Rightarrow> handleError p error elt targetElement)
                 (hooks p hookName))"

section \<open>Header assembly\<close>

type_synonym headers = "string \<rightharpoonup> string"

definition excludedAttributes :: "string list" where
  "excludedAttributes =
     ACTIONS @ [''x-target'', ''x-trigger'', ''x-swap'', ''x-swap-oob'', ''x-push-state'',
                ''x-infinite-scroll'', ''x-debounce'']"

definition with_csrf :: "partial \<Rightarrow> headers \<Rightarrow> headers" where
  "with_csrf p h = (if csrf_active p then h(''X-CSRF-Token'' \<mapsto> csrf_value p) else h)"

definition add_attr_header :: "headers \<Rightarrow> string \<times> string \<Rightarrow> headers" where
  "add_attr_header h attr =
     (if startsWith (fst attr) ''x-'' \<and> fst attr \<notin> set excludedAttributes
      then h(''X-'' @ capitalize (drop 2 (fst attr)) \<mapsto> snd attr)
      else h)"

definition getHeaders :: "partial \<Rightarrow> element \<Rightarrow> headers" where
  "getHeaders p e = foldl add_attr_header (with_csrf p Map.empty) (attributes e)"

text \<open>
  \<open>prepareRequestHeaders\<close>: \<open>JSON_parse\<close> stands for \<open>JSON.parse\<close>, which throws on
  malformed text and otherwise gives the object's entries.
\<close>

definition prepareRequestHeaders ::
  "(string \<Rightarrow> js_error + attrs) \<Rightarrow> partial \<Rightarrow> element option \<Rightarrow> headers \<Rightarrow> js_error + headers"
where
  "prepareRequestHeaders JSON_parse p elt defaultHeaders =
     (let hdrs = with_csrf p defaultHeaders in
      case elt of
        None \<Rightarrow> Inr hdrs
      | Some e \<Rightarrow>
          (let additionalHeaders = getAttribute e ''x-headers'' in
           if truthy additionalHeaders then
             (case JSON_parse (the additionalHeaders) of
                Inl err \<Rightarrow> Inl err
              | Inr obj \<Rightarrow> Inr (hdrs ++ map_of obj))
           else Inr hdrs))"

section \<open>Concrete engines, elements and documents\<close>

definition no_hooks :: "string \<Rightarrow> hook list" where
  "no_hooks hookName = []"

definition boom :: js_error where
  "boom = JsError ''Error'' ''boom''"

definition failing_onAction :: "string \<Rightarrow> hook list" where
  "failing_onAction hookName = (if hookName = ''onAction'' then [HookThrows boom] else [])"

definition engine_plain :: partial where
  "engine_plain = \<lparr>onError = None, csrfToken = None, defaultSwapOption = ''innerHTML'',
     autoFocus = False, hooks = no_hooks\<rparr>"

definition engine_token :: partial where
  "engine_token = engine_plain\<lparr>csrfToken := Some (TokenValue ''tok'')\<rparr>"

definition engine_failing_hook :: partial where
  "engine_failing_hook = engine_plain\<lparr>hooks := failing_onAction\<rparr>"

definition engine_onError :: partial where
  "engine_onError = engine_plain\<lparr>onError := Some (JsFunction ''report'')\<rparr>"

definition syntax_error :: js_error where
  "syntax_error = JsError ''SyntaxError'' ''Unexpected token''"

text \<open>A table standing for \<open>JSON.parse\<close> on the few texts the examples use.\<close>

definition json_table :: "string \<Rightarrow> js_error + attrs" where
  "json_table s =
     (if s = ''{}'' then Inr []
      else if s = ''{\"X-Extra\":\"1\"}'' then Inr [(''X-Extra'', ''1'')]
      else if s = ''{\"page\":\"2\"}'' then Inr [(''page'', ''2'')]
      else Inl syntax_error)"

definition headers_mine :: headers where
  "headers_mine = [''X-CSRF-Token'' \<mapsto> ''mine'', ''X-Target'' \<mapsto> ''content'']"

definition header_of :: "js_error + headers \<Rightarrow> string \<Rightarrow> string option" where
  "header_of r k = (case r of Inl e \<Rightarrow> None | Inr h \<Rightarrow> h k)"

definition target_div :: element where
  "target_div = Element ''DIV'' [(''id'', ''content'')] None"

definition button_with_handler :: element where
  "button_with_handler =
     Element ''BUTTON'' [(''x-get'', ''/a''), (''x-target'', ''#content''), (''x-on-error'', ''showError'')] None"

definition window_with_handler :: "string \<Rightarrow> js_value option" where
  "window_with_handler prop = (if prop = ''showError'' then Some (JsFunction ''showError'') else None)"

definition is_window_call :: "effect \<Rightarrow> bool" where
  "is_window_call x = (case x of CallWindowHandler f e elt \<Rightarrow> True | _ \<Rightarrow> False)"

definition retry_zero :: element where
  "retry_zero = Element ''BUTTON'' [(''x-get'', ''/a''), (''x-retry'', ''0'')] None"

definition retry_words :: element where
  "retry_words = Element ''BUTTON'' [(''x-get'', ''/a'')] (Some (Element ''DIV'' [(''x-retry'', ''twice'')] None))"

definition retry_absent :: element where
  "retry_absent = Element ''BUTTON'' [(''x-get'', ''/a'')] None"

definition net_reject_then_pending :: "nat \<Rightarrow> network" where
  "net_reject_then_pending k = (if k = 1 then Settles (Rejected failed_to_fetch) else Pending)"

section \<open>The document and the swap primitive\<close>

text \<open>
  An HTML text is modelled by the forest it parses to (\<open>markup\<close>); the parser and the
  serialiser of the browser are not modelled. A live node carries, besides its tag,
  attributes and children, the marks the engine leaves on it: the trigger listeners
  attached by \<open>setupElement\<close> and the initialisation flags. The sentinel node and the
  observer of an infinite-scroll container and the connection of an SSE element are
  represented by their marks only. Tag names are upper case, as \<open>tagName\<close> gives them.
  The forest under a \<open>TEMPLATE\<close> element is the template's content: it is written
  out by \<open>innerHTML\<close> and \<open>outerHTML\<close>, but it is not part of the tree that
  \<open>querySelectorAll\<close> and \<open>getElementById\<close> search.
\<close>

datatype markup = MText string | MElem string attrs "markup list"

record marks =
  listeners :: "string list"
  xRequestHandlerInitialized :: bool
  xSSEInitialized :: bool
  infiniteScrollObserver :: bool
  infiniteScrollStopped :: bool

datatype node = Text string | Elem string attrs marks "node list"

definition is_template :: "string \<Rightarrow> bool" where
  "is_template t = (t = ''TEMPLATE'')"

definition no_marks :: marks where
  "no_marks = \<lparr>listeners = [], xRequestHandlerInitialized = False, xSSEInitialized = False,
     infiniteScrollObserver = False, infiniteScrollStopped = False\<rparr>"

fun fresh :: "markup \<Rightarrow> node" where
  "fresh (MText s) = Text s"
| "fresh (MElem t as cs) = Elem t as no_marks (map fresh cs)"

definition trim_left :: "markup list \<Rightarrow> markup list" where
  "trim_left ms =
     (case ms of
        MText s # rest \<Rightarrow> (if dropWhile is_space s = [] then rest else MText (dropWhile is_space s) # rest)
      | _ \<Rightarrow> ms)"

definition trim_right :: "markup list \<Rightarrow> markup list" where
  "trim_right ms =
     (case rev ms of
        MText s # rest \<Rightarrow>
          (if dropWhile is_space (rev s) = [] then rev rest
           else rev (MText (rev (dropWhile is_space (rev s))) # rest))
      | _ \<Rightarrow> ms)"

definition html_trim :: "markup list \<Rightarrow> markup list" where
  "html_trim ms = trim_right (trim_left ms)"

definition setupSSEElement :: "attrs \<Rightarrow> marks \<Rightarrow> marks" where
  "setupSSEElement as m =
     (if xSSEInitialized m then m
      else if \<not> truthy (map_of as ''x-sse'') then m
      else m\<lparr>xSSEInitialized := True\<rparr>)"

definition setupInfiniteScroll :: "marks \<Rightarrow> marks" where
  "setupInfiniteScroll m = (if infiniteScrollStopped m then m else m\<lparr>infiniteScrollObserver := True\<rparr>)"

definition element_trigger :: "element \<Rightarrow> string" where
  "element_trigger e =
     (if tagName e = ''FORM''
      then (if truthy (getAttribute e ''x-trigger'') then the (getAttribute e ''x-trigger'') else ''submit'')
      else (if truthy (getAttributeWithInheritance e ''x-trigger'')
            then the (getAttributeWithInheritance e ''x-trigger'') else ''click''))"

definition setupElement :: "element \<Rightarrow> marks \<Rightarrow> marks" where
  "setupElement e m =
     (if xRequestHandlerInitialized m then m
      else if hasAttribute e ''x-infinite-scroll''
      then (setupInfiniteScroll m)\<lparr>xRequestHandlerInitialized := True\<rparr>
      else m\<lparr>listeners := listeners m @ [element_trigger e], xRequestHandlerInitialized := True\<rparr>)"

definition is_declarative :: "attrs \<Rightarrow> bool" where
  "is_declarative as = (\<exists>a \<in> set (ACTIONS @ [''x-sse'']). map_of as a \<noteq> None)"

definition setup_matched :: "element \<Rightarrow> marks \<Rightarrow> marks" where
  "setup_matched e m =
     (if \<not> is_declarative (attributes e) then m
      else if hasAttribute e ''x-sse'' then setupSSEElement (attributes e) m
      else setupElement e m)"

fun scan_node :: "element option \<Rightarrow> node \<Rightarrow> node" where
  "scan_node parent (Text s) = Text s"
| "scan_node parent (Elem t as m cs) =
     Elem t as (setup_matched (Element t as parent) m)
       (if is_template t then cs else map (scan_node (Some (Element t as parent))) cs)"

definition scanForElements :: "element option \<Rightarrow> node \<Rightarrow> node" where
  "scanForElements parent container =
     (case container of
        Text s \<Rightarrow> Text s
      | Elem t as m cs \<Rightarrow>
          Elem t as m (if is_template t then cs else map (scan_node (Some (Element t as parent))) cs))"

definition scanFragment :: "node list \<Rightarrow> node list" where
  "scanFragment ns = map (scan_node None) ns"

definition child_nodes :: "node \<Rightarrow> node list" where
  "child_nodes n = (case n of Text s \<Rightarrow> [] | Elem t as m cs \<Rightarrow> cs)"

definition set_child_nodes :: "node \<Rightarrow> node list \<Rightarrow> node" where
  "set_child_nodes n cs = (case n of Text s \<Rightarrow> Text s | Elem t as m old \<Rightarrow> Elem t as m cs)"

definition performSwap :: "node \<Rightarrow> markup list \<Rightarrow> string \<Rightarrow> node list" where
  "performSwap targetElement newContent swapOption =
     (let fragment = scanFragment (map fresh (html_trim newContent)) in
      if swapOption = ''outerHTML'' then fragment
      else if swapOption = ''innerHTML'' then [set_child_nodes targetElement fragment]
      else if swapOption = ''beforebegin'' then map fresh newContent @ [targetElement]
      else if swapOption = ''afterbegin''
        then [set_child_nodes targetElement (map fresh newContent @ child_nodes targetElement)]
      else if swapOption = ''beforeend''
        then [set_child_nodes targetElement (child_nodes targetElement @ map fresh newContent)]
      else if swapOption = ''afterend'' then targetElement # map fresh newContent
      else [set_child_nodes targetElement (map fresh newContent)])"

definition go_button :: markup where
  "go_button = MElem ''BUTTON'' [(''x-get'', ''/more'')] [MText ''Go'']"

definition list_div :: node where
  "list_div = Elem ''DIV'' [(''id'', ''list'')] no_marks [Text ''old'']"

subsection \<open>Out-of-band extraction\<close>

fun markup_attr :: "markup \<Rightarrow> string \<Rightarrow> string option" where
  "markup_attr (MText s) a = None"
| "markup_attr (MElem t as cs) a = map_of as a"

fun markup_children :: "markup \<Rightarrow> markup list" where
  "markup_children (MText s) = []"
| "markup_children (MElem t as cs) = cs"

definition has_oob :: "markup \<Rightarrow> bool" where
  "has_oob m = (markup_attr m ''x-swap-oob'' \<noteq> None)"

fun prune :: "markup \<Rightarrow> markup" where
  "prune (MText s) = MText s"
| "prune (MElem t as cs) =
     (if is_template t then MElem t as cs
      else MElem t as (map prune (filter (\<lambda>c. \<not> has_oob c) cs)))"

fun collect :: "markup \<Rightarrow> markup list" where
  "collect (MText s) = []"
| "collect (MElem t as cs) =
     (if map_of as ''x-swap-oob'' \<noteq> None then [prune (MElem t as cs)] else [])
     @ (if is_template t then [] else concat (map collect cs))"



definition is_body :: "markup \<Rightarrow> bool" where
  "is_body m = (case m of MText s \<Rightarrow> False | MElem t as cs \<Rightarrow> t = ''BODY'' \<or> t = ''FRAMESET'')"

definition body_is_null :: js_error where
  "body_is_null = JsError ''TypeError'' ''Cannot read properties of null (reading innerHTML)''"

text \<open>
  The extraction and the reading of \<open>doc.body.innerHTML\<close>. \<open>doc.body\<close> is the first
  \<open>BODY\<close> or \<open>FRAMESET\<close> child of the \<open>HTML\<close> root, and \<open>null\<close> when the root or that
  child has been removed.
\<close>

definition extractOob :: "markup \<Rightarrow> js_error + (markup list \<times> markup list)" where
  "extractOob doc =
     (let oobElements = collect doc in
      if has_oob doc then Inl body_is_null
      else case doc of
             MText s \<Rightarrow> Inl body_is_null
           | MElem t as cs \<Rightarrow>
               if t \<noteq> ''HTML'' then Inl body_is_null
               else case find is_body (markup_children (prune doc)) of
                      None \<Rightarrow> Inl body_is_null
                    | Some body \<Rightarrow> Inr (oobElements, markup_children body))"

subsection \<open>The live document\<close>

fun find_id :: "string \<Rightarrow> nat \<Rightarrow> node list \<Rightarrow> nat list option" where
  "find_id i k [] = None"
| "find_id i k (Text s # ns) = find_id i (Suc k) ns"
| "find_id i k (Elem t as m cs # ns) =
     (if map_of as ''id'' = Some i then Some [k]
      else case (if is_template t then None else find_id i 0 cs) of
             Some p \<Rightarrow> Some (k # p)
           | None \<Rightarrow> find_id i (Suc k) ns)"

definition getElementById :: "node list \<Rightarrow> string \<Rightarrow> nat list option" where
  "getElementById doc i = find_id i 0 doc"

fun modify_at ::
  "(element option \<Rightarrow> node \<Rightarrow> node list) \<Rightarrow> element option \<Rightarrow> nat list \<Rightarrow> node list \<Rightarrow> node list"
where
  "modify_at f parent [] ns = ns"
| "modify_at f parent [k] ns =
     (if k < length ns then take k ns @ f parent (ns ! k) @ drop (Suc k) ns else ns)"
| "modify_at f parent (k # p) ns =
     (if k < length ns then
        (case ns ! k of
           Text s \<Rightarrow> ns
         | Elem t as m cs \<Rightarrow> ns[k := Elem t as m (modify_at f (Some (Element t as parent)) p cs)])
      else ns)"

definition quoted :: "string \<Rightarrow> string" where
  "quoted s = CHR 0x27 # s @ [CHR 0x27]"

definition oob_step :: "partial \<Rightarrow> node list \<times> effect list \<Rightarrow> markup \<Rightarrow> node list \<times> effect list" where
  "oob_step p st oobElement =
     (let doc = fst st; log = snd st; targetId = markup_attr oobElement ''id'' in
      if \<not> truthy targetId then (doc, log @ [ConsoleError ''OOB element does not have an ID:''])
      else
        let swapOption = (if truthy (markup_attr oobElement ''x-swap-oob'')
                          then the (markup_attr oobElement ''x-swap-oob'') else defaultSwapOption p)
        in case getElementById doc (the targetId) of
             None \<Rightarrow> (doc, log @ [ConsoleError (''No existing element found with ID '' @ quoted (the targetId) @ '' for OOB swapping.'')])
           | Some path \<Rightarrow>
               (let swapped = modify_at (\<lambda>parent existing. performSwap existing [oobElement] swapOption) None path doc;
                    scanned = (case getElementById swapped (the targetId) of
                                 None \<Rightarrow> swapped
                               | Some path' \<Rightarrow> modify_at (\<lambda>parent n. [scanForElements parent n]) None path' swapped)
                in (scanned, log @ [SwapApplied (the targetId) swapOption])))"

definition handleOobSwapping :: "partial \<Rightarrow> node list \<Rightarrow> markup list \<Rightarrow> node list \<times> effect list" where
  "handleOobSwapping p doc oobElements = foldl (oob_step p) (doc, []) oobElements"

definition response_doc :: markup where
  "response_doc = MElem ''HTML'' [] [MElem ''HEAD'' [] [],
     MElem ''BODY'' []
       [MElem ''P'' [] [MText ''main''],
        MElem ''DIV'' [(''id'', ''side''), (''x-swap-oob'', ''innerHTML'')]
          [MText ''new side'', MElem ''SPAN'' [(''id'', ''count''), (''x-swap-oob'', ''outerHTML'')] [MText ''3'']],
        MElem ''DIV'' [(''id'', ''gone''), (''x-swap-oob'', ''outerHTML'')] [MText ''lost'']]]"

definition live_doc :: "node list" where
  "live_doc = [Elem ''HTML'' [] no_marks
     [Elem ''BODY'' [] no_marks
        [Elem ''DIV'' [(''id'', ''content'')] no_marks [Text ''old main''],
         Elem ''DIV'' [(''id'', ''side'')] no_marks [Text ''old side''],
         Elem ''SPAN'' [(''id'', ''count'')] no_marks [Text ''2'']]]]"

subsection \<open>\<open>processResponse\<close>\<close>

text \<open>\<open>headers.get(name)\<close>: header names compare without regard to case.\<close>

definition headers_get :: "attrs \<Rightarrow> string \<Rightarrow> string option" where
  "headers_get hs nm = map_of (map (\<lambda>kv. (toLowerCase (fst kv), snd kv)) hs) (toLowerCase nm)"

datatype target = TargetNode "nat list" | TargetWindow

text \<open>
  The final target. \<open>querySelector\<close> stands for \<open>document.querySelector\<close> on the
  document at hand: it throws on a malformed selector and otherwise finds a node or not.
\<close>

definition processResponse_target ::
  "(string \<Rightarrow> js_error + nat list option) \<Rightarrow> node list \<Rightarrow> string option \<Rightarrow> nat list
     \<Rightarrow> js_error + (target \<times> effect list)"
where
  "processResponse_target querySelector doc backendTargetSelector targetElement =
     (if truthy backendTargetSelector then
        (case querySelector (the backendTargetSelector) of
           Inl err \<Rightarrow> Inl err
         | Inr found \<Rightarrow>
             (case (case found of
                      Some path \<Rightarrow> Some path
                    | None \<Rightarrow> getElementById doc (the backendTargetSelector)) of
                Some path \<Rightarrow> Inr (TargetNode path, [])
              | None \<Rightarrow>
                  if the backendTargetSelector = ''root'' then Inr (TargetWindow, [])
                  else Inr (TargetNode targetElement,
                            [ConsoleError (''No element found with selector ''
                               @ quoted (the backendTargetSelector)
                               @ '' specified in X-Target header.'')])))
      else Inr (TargetNode targetElement, []))"

definition processResponse_swapOption :: "partial \<Rightarrow> element \<Rightarrow> string option \<Rightarrow> string" where
  "processResponse_swapOption p elt backendSwapOption =
     (let swapOption =
            (if truthy (getAttributeWithInheritance elt ''x-swap'')
             then the (getAttributeWithInheritance elt ''x-swap'') else defaultSwapOption p)
      in if truthy backendSwapOption then the backendSwapOption else swapOption)"

definition not_a_function :: js_error where
  "not_a_function = JsError ''TypeError'' ''is not a function''"

definition swapOptions :: "string list" where
  "swapOptions = [''outerHTML'', ''innerHTML'', ''beforebegin'', ''afterbegin'', ''beforeend'', ''afterend'']"

text \<open>
  \<open>performSwap\<close> on the document: on a node it replaces the node by what \<open>performSwap\<close>
  leaves in its place; \<open>window\<close> has none of the DOM methods the six strategies call.
\<close>

definition swap_in_document :: "node list \<Rightarrow> target \<Rightarrow> markup list \<Rightarrow> string \<Rightarrow> js_error + node list" where
  "swap_in_document doc tgt newContent swapOption =
     (case tgt of
        TargetNode path \<Rightarrow>
          Inr (modify_at (\<lambda>parent existing. performSwap existing newContent swapOption) None path doc)
      | TargetWindow \<Rightarrow> if swapOption \<in> set swapOptions then Inl not_a_function else Inr doc)"

text \<open>
  Lines 1073 to 1113 of \<open>processResponse\<close>: the out-of-band elements are taken out of the
  parsed response, the target and the strategy are decided, and the primary swap is done.
  The result is the document after the swap, the out-of-band elements, the target, the
  strategy and the content handed to \<open>performSwap\<close>, and the effects so far.
\<close>

definition processResponse_primary ::
  "partial \<Rightarrow> (string \<Rightarrow> js_error + nat list option) \<Rightarrow> node list \<Rightarrow> markup \<Rightarrow> attrs
     \<Rightarrow> nat list \<Rightarrow> element
     \<Rightarrow> js_error + (node list \<times> markup list \<times> target \<times> string \<times> markup list \<times> effect list)"
where
  "processResponse_primary p querySelector doc responseDoc responseHeaders targetElement elt =
     (case processResponse_target querySelector doc (headers_get responseHeaders ''X-Target'') targetElement of
        Inl err \<Rightarrow> Inl err
      | Inr (finalTargetElement, log) \<Rightarrow>
          (let swapOption = processResponse_swapOption p elt (headers_get responseHeaders ''X-Swap'') in
           case extractOob responseDoc of
             Inl err \<Rightarrow> Inl err
           | Inr (oobElements, newContent) \<Rightarrow>
               (case swap_in_document doc finalTargetElement newContent swapOption of
                  Inl err \<Rightarrow> Inl err
                | Inr doc' \<Rightarrow>
                    Inr (doc', oobElements, finalTargetElement, swapOption, newContent,
                         DispatchEvent ''beforeUpdate'' # log))))"

text \<open>
  \<open>scanForElements(finalTargetElement)\<close> after the swap. A target replaced by \<open>outerHTML\<close>
  is no longer in the document, so scanning it changes nothing there; after
  \<open>beforebegin\<close> the target has moved right by the number of nodes inserted.
\<close>

definition rescan_target :: "node list \<Rightarrow> target \<Rightarrow> string \<Rightarrow> nat \<Rightarrow> js_error + node list" where
  "rescan_target doc tgt swapOption inserted =
     (case tgt of
        TargetWindow \<Rightarrow> Inl not_a_function
      | TargetNode path \<Rightarrow>
          if swapOption = ''outerHTML'' \<or> path = [] then Inr doc
          else
            let path' = (if swapOption = ''beforebegin'' then butlast path @ [last path + inserted] else path)
            in Inr (modify_at (\<lambda>parent n. [scanForElements parent n]) None path' doc))"

definition handleResponseEvents :: "attrs \<Rightarrow> effect list" where
  "handleResponseEvents responseHeaders =
     map (\<lambda>kv. DispatchEvent (drop 8 (fst kv)))
       (filter (\<lambda>kv. startsWith (toLowerCase (fst kv)) ''x-event-'') responseHeaders)"

text \<open>
  The whole of \<open>processResponse\<close>; \<open>targetAsElement\<close> is the caller's target as the
  \<open>afterSettle\<close> hooks receive it.
\<close>

definition processResponse ::
  "partial \<Rightarrow> (string \<Rightarrow> js_error + nat list option) \<Rightarrow> node list \<Rightarrow> markup \<Rightarrow> attrs
     \<Rightarrow> nat list \<Rightarrow> element \<Rightarrow> element \<Rightarrow> js_error + (node list \<times> effect list)"
where
  "processResponse p querySelector doc responseDoc responseHeaders targetElement targetAsElement elt =
     (case processResponse_primary p querySelector doc responseDoc responseHeaders targetElement elt of
        Inl err \<Rightarrow> Inl err
      | Inr (doc1, oobElements, finalTargetElement, swapOption, newContent, log) \<Rightarrow>
          (case rescan_target doc1 finalTargetElement swapOption (length newContent) of
             Inl err \<Rightarrow> Inl err
           | Inr doc2 \<Rightarrow>
               (let oob = handleOobSwapping p doc2 oobElements;
                    stop = (if headers_get responseHeaders ''X-Infinite-Scroll'' = Some ''stop''
                               \<and> hasAttribute elt ''x-infinite-scroll''
                            then [StopInfiniteScroll] else [])
                in Inr (fst oob,
                        log @ [DispatchEvent ''afterUpdate''] @ snd oob
                          @ handleResponseEvents responseHeaders @ stop
                          @ runHooks p ''afterSettle'' (Some elt) (Some targetAsElement)))))"

definition swap_header :: attrs where
  "swap_header = [(''X-Target'', ''#side''), (''X-Swap'', ''outerHTML'')]"

definition empty_swap_header :: attrs where
  "empty_swap_header = [(''X-Swap'', [])]"

definition query_ids :: "node list \<Rightarrow> string \<Rightarrow> js_error + nat list option" where
  "query_ids doc sel =
     (case sel of
        [] \<Rightarrow> Inl syntax_error
      | c # cs \<Rightarrow> if c = CHR ''#'' then Inr (getElementById doc cs) else Inr None)"

definition outer_button :: element where
  "outer_button = Element ''BUTTON'' [(''x-get'', ''/a'')]
     (Some (Element ''DIV'' [(''x-swap'', ''outerHTML''), (''x-target'', ''#content'')] None))"

section \<open>The triggered action: \<open>handleAction\<close>\<close>

text \<open>
  What \<open>handleAction\<close> asks of the browser: the answer of \<open>window.confirm\<close>, the
  properties of \<open>window\<close>, \<open>document.querySelector\<close> (which throws on a malformed
  selector), \<open>JSON.parse\<close> and \<open>JSON.stringify\<close>, the network, and what the steps after
  the request (processing the response, the history entry, the \<open>x-after\<close> events, the
  focus) do with the response text: nothing, or throw.

  A node that \<open>querySelector\<close> finds is the triggering element itself, one of its
  ancestors (counted from the parent, which is \<open>Ancestor 0\<close>, in the chain the element
  had when the action started), or a node elsewhere. The document changes during the
  action when the fallback of \<open>handleError\<close> writes its notice into the target, so the
  answers of \<open>querySelector\<close> are given before (\<open>False\<close>) and after (\<open>True\<close>) that write.
  The infinite scroll searches its target once the response has arrived, when the document
  may be another: that answer is \<open>queryAfterResponse\<close>. The \<open>onError\<close> callback and the
  window handlers are taken not to change the document and not to throw.
\<close>

datatype found = Self | Ancestor nat | Other element

record browser =
  confirmAnswer :: "string \<Rightarrow> bool"
  windowProperty :: "string \<Rightarrow> js_value option"
  documentQuery :: "bool \<Rightarrow> string \<Rightarrow> js_error + found option"
  queryAfterResponse :: "string \<Rightarrow> js_error + found option"
  jsonParse :: "string \<Rightarrow> js_error + attrs"
  jsonStringify :: "attrs \<Rightarrow> string"
  fetchOutcome :: "nat \<Rightarrow> network"
  afterReceive :: "string \<Rightarrow> js_error option"

fun ancestor_at :: "element option \<Rightarrow> nat \<Rightarrow> element option" where
  "ancestor_at None k = None"
| "ancestor_at (Some e) 0 = Some e"
| "ancestor_at (Some (Element t as parent)) (Suc k) = ancestor_at parent k"

definition located :: "element \<Rightarrow> found \<Rightarrow> element option" where
  "located elt f =
     (case f of Self \<Rightarrow> Some elt | Ancestor k \<Rightarrow> ancestor_at (parentElement elt) k | Other e \<Rightarrow> Some e)"

text \<open>
  \<open>target.innerHTML = notice\<close> removes everything below the target. An element below
  its target keeps the ancestors that lie between it and the target and loses the rest.
\<close>

fun cut_chain :: "nat \<Rightarrow> element option \<Rightarrow> element option" where
  "cut_chain 0 parent = None"
| "cut_chain (Suc k) None = None"
| "cut_chain (Suc k) (Some (Element t as parent)) = Some (Element t as (cut_chain k parent))"

definition detach :: "found \<Rightarrow> element \<Rightarrow> element" where
  "detach f elt =
     (case f of
        Ancestor k \<Rightarrow> Element (tagName elt) (attributes elt) (cut_chain k (parentElement elt))
      | _ \<Rightarrow> elt)"

definition notice_written :: "effect list \<Rightarrow> bool" where
  "notice_written effects = (\<exists>x \<in> set effects. case x of SetInnerHTML t n \<Rightarrow> True | _ \<Rightarrow> False)"

text \<open>The element after \<open>handleError\<close> has run with the node \<open>f\<close> as its target.\<close>

definition after_report :: "effect list \<Rightarrow> found option \<Rightarrow> element \<Rightarrow> element" where
  "after_report effects f elt =
     (case f of None \<Rightarrow> elt | Some g \<Rightarrow> if notice_written effects then detach g elt else elt)"

record requestParams =
  rp_method :: string
  rp_url :: "string option"
  rp_headers :: headers
  rp_targetSelector :: string
  rp_partialId :: "string option"
  rp_paramsObject :: attrs
  rp_maxRetries :: int

definition invalid_params :: js_error where
  "invalid_params = JsError ''Error'' ''Invalid JSON in x-params attribute''"

definition targetSelector_of :: "element \<Rightarrow> string" where
  "targetSelector_of elt =
     (let inherited = getAttributeWithInheritance elt ''x-target'' in
      if truthy inherited then the inherited
      else if truthy (getAttribute elt ''id'') then ''#'' @ the (getAttribute elt ''id'')
      else ''body'')"

definition found_element :: "element \<Rightarrow> found option \<Rightarrow> element option" where
  "found_element elt q = (case q of None \<Rightarrow> None | Some f \<Rightarrow> located elt f)"

text \<open>
  \<open>extractRequestParams\<close>: the effects done (the report of malformed \<open>x-params\<close>), the
  element as the report left it, and the descriptor returned or the error thrown (by
  \<open>querySelector\<close>).
\<close>

definition extractRequestParams ::
  "partial \<Rightarrow> browser \<Rightarrow> element \<Rightarrow> effect list \<times> element \<times> (js_error + requestParams)"
where
  "extractRequestParams p b elt =
     (let method = getMethod elt;
          actionAttr = ''x-'' @ toLowerCase method;
          url = getAttributeWithInheritance elt actionAttr;
          hdrs = getHeaders p elt;
          targetSelector = targetSelector_of elt
      in case documentQuery b False targetSelector of
           Inl err \<Rightarrow> ([], elt, Inl err)
         | Inr q \<Rightarrow>
             (let targetElement = found_element elt q;
                  partialId = (case targetElement of None \<Rightarrow> None | Some t \<Rightarrow> getAttribute t ''id'');
                  xParams = getAttributeWithInheritance elt ''x-params'';
                  parsed = (if truthy xParams then jsonParse b (the xParams) else Inr []);
                  report = (case parsed of
                              Inl err \<Rightarrow> handleError p invalid_params (Some elt) targetElement
                            | Inr obj \<Rightarrow> []);
                  paramsObject = (case parsed of Inl err \<Rightarrow> [] | Inr obj \<Rightarrow> obj)
              in (report, after_report report q elt,
                  Inr \<lparr>rp_method = method, rp_url = url, rp_headers = hdrs,
                       rp_targetSelector = targetSelector, rp_partialId = partialId,
                       rp_paramsObject = paramsObject, rp_maxRetries = 0\<rparr>)))"

definition prepareRequestParams ::
  "partial \<Rightarrow> browser \<Rightarrow> element \<Rightarrow> int \<Rightarrow> effect list \<times> element \<times> (js_error + requestParams)"
where
  "prepareRequestParams p b elt maxRetries =
     (case extractRequestParams p b elt of
        (report, cur, Inl err) \<Rightarrow> (report, cur, Inl err)
      | (report, cur, Inr rp) \<Rightarrow>
          if \<not> truthy (rp_url rp)
          then (report, cur,
                Inl (JsError ''Error'' (''No URL specified for method '' @ rp_method rp @ '' on element.'')))
          else case documentQuery b (notice_written report) (rp_targetSelector rp) of
                 Inl err \<Rightarrow> (report, cur, Inl err)
               | Inr q \<Rightarrow>
                   (case found_element elt q of
                      None \<Rightarrow>
                        (report, cur,
                         Inl (JsError ''Error'' (''No element found with selector ''
                            @ quoted (rp_targetSelector rp) @ '' for '' @ quoted ''x-target'' @ '' targeting.'')))
                    | Some t \<Rightarrow>
                        if \<not> truthy (rp_partialId rp)
                        then (report, cur,
                              Inl (JsError ''Error'' (''Target element does not have an ''
                                 @ quoted ''id'' @ '' attribute.'')))
                        else (report, cur,
                              Inr (rp\<lparr>rp_headers := (rp_headers rp)(''X-Target'' \<mapsto> the (rp_partialId rp)),
                                       rp_maxRetries := maxRetries\<rparr>))))"

subsection \<open>\<open>performRequest\<close>\<close>

text \<open>The nearest form: the element itself when it is a form, else \<open>closest('form')\<close>.\<close>

fun closest_form :: "element option \<Rightarrow> bool" where
  "closest_form None = False"
| "closest_form (Some (Element t as parent)) = (t = ''FORM'' \<or> closest_form parent)"

text \<open>
  \<open>prepareRequestBody\<close>, as far as it can fail: the body itself is not modelled, only
  whether one is made. \<open>JSON.parse\<close> of a form serialised to XML always throws.
\<close>

datatype request_body = NoBody | TextBody | FormDataBody

definition prepareRequestBody :: "browser \<Rightarrow> element \<Rightarrow> string \<Rightarrow> attrs \<Rightarrow> js_error + request_body" where
  "prepareRequestBody b elt serializeType paramsObject =
     (let method = getMethod elt;
          isWriteMethod = (method \<in> set [''POST'', ''PUT'', ''PATCH'', ''DELETE'']);
          xJson = getAttribute elt ''x-json''
      in if truthy xJson then
           (case jsonParse b (the xJson) of
              Inl err \<Rightarrow> Inl (JsError ''Error'' ''Invalid JSON in x-json attribute'')
            | Inr bodyData \<Rightarrow> Inr TextBody)
         else if serializeType \<in> set [''json'', ''nested-json'', ''xml''] then
           (if \<not> closest_form (Some elt) then
              (if isWriteMethod
               then Inl (JsError ''Error'' ''Expected an HTMLFormElement for body serialization, but none found.'')
               else Inr NoBody)
            else if paramsObject \<noteq> [] \<and> serializeType = ''xml'' then Inl syntax_error
            else Inr TextBody)
         else
           (if \<not> closest_form (Some elt) then
              (if isWriteMethod
               then Inl (JsError ''Error'' ''Expected an HTMLFormElement for FormData, but none found.'')
               else Inr NoBody)
            else Inr FormDataBody))"

text \<open>\<open>URLSearchParams\<close> is not modelled beyond joining the pairs.\<close>

fun query_string :: "attrs \<Rightarrow> string" where
  "query_string [] = []"
| "query_string [(k, v)] = k @ ''='' @ v"
| "query_string ((k, v) # rest) = k @ ''='' @ v @ ''&'' @ query_string rest"

definition prepareRequestUrl :: "string \<Rightarrow> attrs \<Rightarrow> string" where
  "prepareRequestUrl url paramsObject =
     (if paramsObject = [] then url
      else if CHR ''?'' \<in> set url then url @ ''&'' @ query_string paramsObject
      else url @ ''?'' @ query_string paramsObject)"

text \<open>
  A middleware either calls \<open>next\<close> and returns its result, or returns a value of its own
  without calling it, or throws.
\<close>

datatype middleware = CallsNext | ShortCircuits string | MiddlewareThrows js_error

datatype outcome = Completed | RejectedWith js_error | NeverSettles

fun runMiddleware ::
  "middleware list \<Rightarrow> effect list \<times> (js_error + string) option \<Rightarrow> effect list \<times> (js_error + string) option"
where
  "runMiddleware [] finalHandler = finalHandler"
| "runMiddleware (CallsNext # stack) finalHandler = runMiddleware stack finalHandler"
| "runMiddleware (ShortCircuits v # stack) finalHandler = ([], Some (Inr v))"
| "runMiddleware (MiddlewareThrows err # stack) finalHandler = ([], Some (Inl err))"

definition serializeType_of :: "element \<Rightarrow> string" where
  "serializeType_of elt =
     (if truthy (getAttribute elt ''x-serialize'') then the (getAttribute elt ''x-serialize'') else ''json'')"

text \<open>
  The final handler of \<open>performRequest\<close>: the effects, and the response text returned or
  the error thrown, \<open>None\<close> when the request never settles. \<open>NetworkCalls m u n\<close> records
  that \<open>fetch\<close> was called \<open>n\<close> times with method \<open>m\<close> and URL \<open>u\<close>.
\<close>

definition performRequest_final ::
  "partial \<Rightarrow> browser \<Rightarrow> element \<Rightarrow> requestParams \<Rightarrow> int option
     \<Rightarrow> effect list \<times> (js_error + string) option"
where
  "performRequest_final p b elt rp timeout =
     (case prepareRequestBody b elt (serializeType_of elt) (rp_paramsObject rp) of
        Inl err \<Rightarrow> ([], Some (Inl err))
      | Inr body \<Rightarrow>
          (let url = prepareRequestUrl (the (rp_url rp)) (rp_paramsObject rp) in
           case prepareRequestHeaders (jsonParse b) p (Some elt) (rp_headers rp) of
             Inl err \<Rightarrow> ([], Some (Inl err))
           | Inr hdrs \<Rightarrow>
               (case performRequestCore (fetchOutcome b) timeout (rp_maxRetries rp) of
                  (None, calls) \<Rightarrow> ([NetworkCalls (rp_method rp) url calls], None)
                | (Some ex, calls) \<Rightarrow>
                    (case surfaced ex of
                       Inl err \<Rightarrow>
                         ([NetworkCalls (rp_method rp) url calls,
                           ConsoleError ''performRequestCore failed:''], Some (Inl err))
                     | Inr resp \<Rightarrow>
                         (NetworkCalls (rp_method rp) url calls
                            # runHooks p ''afterResponse'' None None,
                          Some (text_result resp))))))"

definition performRequest ::
  "partial \<Rightarrow> middleware list \<Rightarrow> browser \<Rightarrow> element \<Rightarrow> requestParams \<Rightarrow> int option
     \<Rightarrow> effect list \<times> (js_error + string) option"
where
  "performRequest p stack b elt rp timeout =
     (let r = runMiddleware stack (performRequest_final p b elt rp timeout)
      in (runHooks p ''beforeRequest'' None None @ fst r, snd r))"

subsection \<open>\<open>handleAction\<close>\<close>

text \<open>\<open>events.split(',').map(e => e.trim())\<close>, one event dispatched per name.\<close>

fun split_commas :: "string \<Rightarrow> string \<Rightarrow> string list" where
  "split_commas acc [] = [rev acc]"
| "split_commas acc (c # cs) =
     (if c = CHR '','' then rev acc # split_commas [] cs else split_commas (c # acc) cs)"

definition js_trim :: "string \<Rightarrow> string" where
  "js_trim s = rev (dropWhile is_space (rev (dropWhile is_space s)))"

definition dispatchCustomEvents :: "string option \<Rightarrow> effect list" where
  "dispatchCustomEvents events =
     (if truthy events then map (\<lambda>e. DispatchEvent (js_trim e)) (split_commas [] (the events)) else [])"

definition target_not_found :: "string \<Rightarrow> js_error" where
  "target_not_found sel = JsError ''Error'' (''No element found with selector ''
     @ quoted sel @ '' for '' @ quoted ''x-target'' @ '' targeting.'')"

text \<open>
  The \<open>try\<close>, \<open>catch\<close> and \<open>finally\<close> of \<open>handleAction\<close> (lines 588 to 670), for the
  element as the earlier steps left it. The changes of style and class on the indicator
  and the target are left out.
\<close>

definition handleAction_request ::
  "partial \<Rightarrow> middleware list \<Rightarrow> browser \<Rightarrow> element \<Rightarrow> requestParams \<Rightarrow> int option \<Rightarrow> element
     \<Rightarrow> effect list \<times> outcome"
where
  "handleAction_request p stack b elt rp timeout targetElement =
     (let before = dispatchCustomEvents (getAttribute elt ''x-before'') @ [DispatchEvent ''beforeSend''];
          req = performRequest p stack b elt rp timeout
      in case snd req of
           None \<Rightarrow> (before @ fst req, NeverSettles)
         | Some (Inl err) \<Rightarrow>
             (before @ fst req @ handleAction_catch p (windowProperty b) err elt targetElement,
              Completed)
         | Some (Inr responseText) \<Rightarrow>
             (case afterReceive b responseText of
                None \<Rightarrow> (before @ fst req @ [DispatchEvent ''afterReceive''], Completed)
              | Some err \<Rightarrow>
                  (before @ fst req @ [DispatchEvent ''afterReceive'']
                     @ handleAction_catch p (windowProperty b) err elt targetElement,
                   Completed)))"

text \<open>\<open>handleAction\<close>: the effects in order and how the call ends.\<close>

definition handleAction :: "partial \<Rightarrow> middleware list \<Rightarrow> browser \<Rightarrow> element \<Rightarrow> effect list \<times> outcome" where
  "handleAction p stack b elt =
     (let confirmMessage = getAttribute elt ''x-confirm'' in
      if truthy confirmMessage \<and> \<not> confirmAnswer b (the confirmMessage)
      then ([Confirm (the confirmMessage)], Completed)
      else
        let asked = (if truthy confirmMessage then [Confirm (the confirmMessage)] else []);
            indicatorSelector = getAttributeWithInheritance elt ''x-indicator'';
            indicator = (if truthy indicatorSelector then documentQuery b False (the indicatorSelector)
                         else Inr None)
        in case indicator of
             Inl err \<Rightarrow> (asked, RejectedWith err)
           | Inr indicatorElement \<Rightarrow>
               (let timeout = handleAction_timeout elt;
                    maxRetries = handleAction_maxRetries elt
                in case prepareRequestParams p b elt maxRetries of
                     (report, cur, Inl err) \<Rightarrow> (asked @ report, RejectedWith err)
                   | (report, cur, Inr rp) \<Rightarrow>
                       (case documentQuery b (notice_written report) (rp_targetSelector rp) of
                          Inl err \<Rightarrow> (asked @ report, RejectedWith err)
                        | Inr q \<Rightarrow>
                            (case found_element elt q of
                               None \<Rightarrow>
                                 (asked @ report
                                    @ handleError p (target_not_found (rp_targetSelector rp)) (Some cur) None,
                                  Completed)
                             | Some targetElement \<Rightarrow>
                                 (let hooked = runHooks p ''onAction'' (Some cur) (Some targetElement);
                                      cur' = after_report hooked q cur;
                                      r = handleAction_request p stack b cur' rp timeout targetElement
                                  in (asked @ report @ hooked @ fst r, snd r))))))"

text \<open>The listener installed by \<open>setupElement\<close>: a rejection of \<open>handleAction\<close> goes to
  \<open>handleError\<close>.\<close>

definition trigger :: "partial \<Rightarrow> middleware list \<Rightarrow> browser \<Rightarrow> element \<Rightarrow> effect list" where
  "trigger p stack b elt =
     (case handleAction p stack b elt of
        (effects, RejectedWith err) \<Rightarrow> effects @ handleError p err (Some elt) None
      | (effects, other) \<Rightarrow> effects)"

section \<open>Server-sent events and infinite scroll: the error paths\<close>

text \<open>
  \<open>setupSSEElement\<close>: an element without a URL is reported on the console only; an
  error of the connection (\<open>eventSource.onerror\<close>) goes to \<open>handleError\<close> without a target.
\<close>

definition setupSSEElement_report :: "element \<Rightarrow> effect list" where
  "setupSSEElement_report elt =
     (if \<not> truthy (getAttribute elt ''x-sse'')
      then [ConsoleError ''No URL specified in x-sse attribute on element:''] else [])"

definition sse_onerror :: "partial \<Rightarrow> js_error \<Rightarrow> element \<Rightarrow> effect list" where
  "sse_onerror p error elt = handleError p error (Some elt) None"

text \<open>
  \<open>handleSSEMessage\<close>: \<open>parsed\<close> is what \<open>JSON.parse(event.data)\<close> gives, \<open>targetInBody\<close>
  what the search for the target gives (\<open>querySelector\<close> may throw; the target found, or
  the element itself, is in \<open>document.body\<close> or not), and \<open>swapped\<close> the error thrown by
  the swap and the steps after it, if any.
\<close>

definition handleSSEMessage ::
  "partial \<Rightarrow> js_error + attrs \<Rightarrow> js_error + bool \<Rightarrow> js_error option \<Rightarrow> element \<Rightarrow> effect list"
where
  "handleSSEMessage p parsed targetInBody swapped elt =
     (case parsed of
        Inl err \<Rightarrow> handleError p err (Some elt) None
      | Inr msg \<Rightarrow>
          (case targetInBody of
             Inl err \<Rightarrow> handleError p err (Some elt) None
           | Inr False \<Rightarrow>
               [ConsoleError (''No element found with selector ''
                  @ quoted (case map_of msg ''xTarget'' of None \<Rightarrow> ''undefined'' | Some sel \<Rightarrow> sel)
                  @ '' for SSE message or it is not in the DOM.'')]
           | Inr True \<Rightarrow>
               (case swapped of
                  Some err \<Rightarrow> handleError p err (Some elt) None
                | None \<Rightarrow> [DispatchEvent ''sseContentReplaced''])))"

text \<open>
  \<open>getChildParamsObject\<close>: \<open>childParams\<close> is the \<open>x-params\<close> attribute of the last child,
  if there is one; malformed JSON there is reported on the console only.
\<close>

definition getChildParamsObject :: "browser \<Rightarrow> string option \<Rightarrow> effect list \<times> attrs" where
  "getChildParamsObject b childParams =
     (if truthy childParams then
        (case jsonParse b (the childParams) of
           Inl err \<Rightarrow> ([ConsoleError ''Invalid JSON in x-params attribute of last child:''], [])
         | Inr obj \<Rightarrow> ([], obj))
      else ([], []))"

text \<open>
  The descriptor as \<open>handleInfiniteScrollAction\<close> completes it: the \<open>X-Action\<close> header
  unless there is one, the parameters of the last child, and these as the \<open>X-Params\<close>
  header when there are any.
\<close>

definition scroll_descriptor :: "browser \<Rightarrow> requestParams \<Rightarrow> attrs \<Rightarrow> requestParams" where
  "scroll_descriptor b rp childObject =
     (let withAction = (if truthy (rp_headers rp ''X-Action'') then rp_headers rp
                        else (rp_headers rp)(''X-Action'' \<mapsto> ''infinite-scroll''));
          withParams = (if childObject \<noteq> []
                        then withAction(''X-Params'' \<mapsto> jsonStringify b childObject)
                        else withAction)
      in rp\<lparr>rp_headers := withParams, rp_paramsObject := childObject\<rparr>)"

definition handleInfiniteScrollAction ::
  "partial \<Rightarrow> middleware list \<Rightarrow> browser \<Rightarrow> element \<Rightarrow> string option \<Rightarrow> effect list \<times> outcome"
where
  "handleInfiniteScrollAction p stack b parentElem childParams =
     (if \<not> truthy (getAttribute parentElem ''x-get'')
      then ([ConsoleError ''No URL specified for infinite scroll.''], Completed)
      else case prepareRequestParams p b parentElem 2 of
             (report, cur, Inl err) \<Rightarrow> (report, RejectedWith err)
           | (report, cur, Inr rp) \<Rightarrow>
               (let child = getChildParamsObject b childParams;
                    req = performRequest p stack b cur (scroll_descriptor b rp (snd child)) None
                in case snd req of
                     None \<Rightarrow> (report @ fst child @ fst req, NeverSettles)
                   | Some (Inl err) \<Rightarrow>
                       (report @ fst child @ fst req @ handleError p err (Some cur) (Some cur), Completed)
                   | Some (Inr responseText) \<Rightarrow>
                       (case queryAfterResponse b (rp_targetSelector rp) of
                          Inl err \<Rightarrow>
                            (report @ fst child @ fst req @ handleError p err (Some cur) (Some cur),
                             Completed)
                        | Inr q \<Rightarrow>
                            (case found_element parentElem q of
                               None \<Rightarrow>
                                 (report @ fst child @ fst req
                                    @ [ConsoleError (''No element found with selector ''
                                         @ quoted (rp_targetSelector rp) @ '' for infinite scroll.'')],
                                  Completed)
                             | Some targetElement \<Rightarrow>
                                 (case afterReceive b responseText of
                                    None \<Rightarrow> (report @ fst child @ fst req, Completed)
                                  | Some err \<Rightarrow>
                                      (report @ fst child @ fst req
                                         @ handleError p err (Some cur) (Some cur), Completed))))))"

text \<open>The observer callback of \<open>setupInfiniteScroll\<close>: a rejection goes to \<open>handleError\<close>.\<close>

definition scroll_intersect ::
  "partial \<Rightarrow> middleware list \<Rightarrow> browser \<Rightarrow> element \<Rightarrow> string option \<Rightarrow> effect list"
where
  "scroll_intersect p stack b parentElem childParams =
     (case handleInfiniteScrollAction p stack b parentElem childParams of
        (effects, RejectedWith err) \<Rightarrow> effects @ handleError p err (Some parentElem) None
      | (effects, other) \<Rightarrow> effects)"

text \<open>The errors thrown by the callbacks of a hook phase, in registration order.\<close>

definition hook_errors :: "hook list \<Rightarrow> js_error list" where
  "hook_errors hs = concat (map (\<lambda>h. case h of HookOk \<Rightarrow> [] | HookThrows e \<Rightarrow> [e]) hs)"

subsection \<open>Concrete browsers and elements\<close>

definition query_content :: "bool \<Rightarrow> string \<Rightarrow> js_error + found option" where
  "query_content written sel = (if sel = ''#content'' then Inr (Some (Other target_div)) else Inr None)"

definition stringify_table :: "attrs \<Rightarrow> string" where
  "stringify_table obj = (if obj = [(''page'', ''2'')] then ''{\"page\":\"2\"}'' else ''{}'')"

definition confirm_yes :: "string \<Rightarrow> bool" where
  "confirm_yes msg = True"

definition window_empty :: "string \<Rightarrow> js_value option" where
  "window_empty prop = None"

definition settles_quietly :: "string \<Rightarrow> js_error option" where
  "settles_quietly txt = None"

definition browser_simple :: browser where
  "browser_simple = \<lparr>
     confirmAnswer = confirm_yes,
     windowProperty = window_empty,
     documentQuery = query_content,
     queryAfterResponse = query_content True,
     jsonParse = json_table,
     jsonStringify = stringify_table,
     fetchOutcome = net_always_ok,
     afterReceive = settles_quietly\<rparr>"


text \<open>A button that posts the form it stands in, the form being its target.\<close>

definition the_form :: element where
  "the_form = Element ''FORM'' [(''id'', ''f'')] None"

definition post_button :: element where
  "post_button =
     Element ''BUTTON'' [(''x-post'', ''/save''), (''x-target'', ''#f''), (''x-params'', ''{page:'')]
       (Some the_form)"

definition query_form :: "bool \<Rightarrow> string \<Rightarrow> js_error + found option" where
  "query_form written sel = (if sel = ''#f'' then Inr (Some (Ancestor 0)) else Inr None)"

definition browser_form :: browser where
  "browser_form = browser_simple\<lparr>documentQuery := query_form\<rparr>"

definition scroll_list :: element where
  "scroll_list = Element ''DIV'' [(''x-infinite-scroll'', []), (''x-get'', ''/items''),
     (''x-target'', ''#content''), (''x-on-error'', ''showError'')] None"

definition browser_offline :: browser where
  "browser_offline = browser_simple\<lparr>fetchOutcome := net_always_rejects,
     windowProperty := window_with_handler\<rparr>"

text \<open>A browser where the target is no longer in the document once the response is there.\<close>

definition query_nothing :: "string \<Rightarrow> js_error + found option" where
  "query_nothing sel = Inr None"

definition browser_target_gone :: browser where
  "browser_target_gone = browser_simple\<lparr>queryAfterResponse := query_nothing\<rparr>"

definition scroll_lost :: element where
  "scroll_lost = Element ''DIV'' [(''x-infinite-scroll'', []), (''x-get'', ''/items''),
     (''x-target'', ''#missing'')] None"

definition scroll_list_descriptor :: requestParams where
  "scroll_list_descriptor =
     \<lparr>rp_method = ''GET'', rp_url = Some ''/items'',
      rp_headers = (getHeaders engine_plain scroll_list)(''X-Target'' \<mapsto> ''content''),
      rp_targetSelector = ''#content'', rp_partialId = Some ''content'',
      rp_paramsObject = [], rp_maxRetries = 2\<rparr>"

definition descriptor_a :: requestParams where
  "descriptor_a =
     \<lparr>rp_method = ''GET'', rp_url = Some ''/a'', rp_headers = Map.empty,
      rp_targetSelector = ''#content'', rp_partialId = Some ''content'',
      rp_paramsObject = [], rp_maxRetries = 0\<rparr>"

text \<open>Predicates on nodes and log entries used to state the properties below.\<close>

fun activated_once :: "node \<Rightarrow> bool" where
  "activated_once (Text s) = True"
| "activated_once (Elem t as m cs) =
     ((is_declarative as \<and> map_of as ''x-sse'' = None \<and> map_of as ''x-infinite-scroll'' = None
         \<longrightarrow> length (listeners m) = 1)
      \<and> (is_template t \<or> list_all activated_once cs))"

fun unlistened :: "node \<Rightarrow> bool" where
  "unlistened (Text s) = True"
| "unlistened (Elem t as m cs) = (listeners m = [] \<and> list_all unlistened cs)"







definition button_response :: markup where
  "button_response = MElem ''HTML'' [] [MElem ''HEAD'' [] [], MElem ''BODY'' [] [go_button]]"

section \<open>Properties of the request core\<close>

lemma core_loop_skip_failures:
  assumes "\<forall>j. calls < j \<and> j \<le> calls + m \<longrightarrow> fails_plain timeout (fetch j)"
    and "int (attempts + m) < maxAttempts"
  shows "core_loop fetch timeout maxAttempts attempts calls
       = core_loop fetch timeout maxAttempts (attempts + m) (calls + m)"
  using assms
proof (induction m arbitrary: attempts calls)
  case 0
  then show ?case by simp
next
  case (Suc m)
  have f: "fails_plain timeout (fetch (calls + 1))" using Suc.prems(1) by simp
  have lt: "int attempts < maxAttempts" "\<not> int (attempts + 1) \<ge> maxAttempts" using Suc.prems(2) by auto
  have step: "core_loop fetch timeout maxAttempts attempts calls
       = core_loop fetch timeout maxAttempts (attempts + 1) (calls + 1)"
    using f lt by (subst core_loop.simps) (auto simp: fails_plain_def split: option.splits sum.splits)
  have "core_loop fetch timeout maxAttempts (attempts + 1) (calls + 1)
       = core_loop fetch timeout maxAttempts (attempts + 1 + m) (calls + 1 + m)"
    by (rule Suc.IH) (use Suc.prems in auto)
  with step show ?case by (simp add: add.commute add.left_commute)
qed

lemma core_loop_calls_bound:
  "core_loop fetch timeout maxAttempts attempts calls = (x, c) \<Longrightarrow>
     c \<le> calls + nat (maxAttempts - int attempts)"
proof (induction fetch timeout maxAttempts attempts calls rule: core_loop.induct)
  case (1 fetch timeout maxAttempts attempts calls)
  show ?case
  proof (cases "int attempts < maxAttempts")
    case False
    with "1.prems" show ?thesis by (subst (asm) core_loop.simps) simp
  next
    case True
    show ?thesis
    proof (cases "try_attempt timeout (fetch (calls + 1))")
      case None
      with True "1.prems" show ?thesis by (subst (asm) core_loop.simps) auto
    next
      case (Some res)
      show ?thesis
      proof (cases res)
        case (Inr r)
        with Some True "1.prems" show ?thesis by (subst (asm) core_loop.simps) auto
      next
        case (Inl e)
        show ?thesis
        proof (cases "name e = ''AbortError'' \<or> int (attempts + 1) \<ge> maxAttempts")
          case True
          with Inl Some \<open>int attempts < maxAttempts\<close> "1.prems" show ?thesis
            by (subst (asm) core_loop.simps) (auto split: if_splits)
        next
          case False
          with Inl Some \<open>int attempts < maxAttempts\<close> "1.prems"
          have "core_loop fetch timeout maxAttempts (attempts + 1) (calls + 1) = (x, c)"
            by (subst (asm) core_loop.simps) (auto split: if_splits)
          with "1.IH"[OF \<open>int attempts < maxAttempts\<close> Some Inl] False
          have "c \<le> calls + 1 + nat (maxAttempts - int (attempts + 1))" by auto
          then show ?thesis using \<open>int attempts < maxAttempts\<close> by linarith
        qed
      qed
    qed
  qed
qed

text \<open>The last attempt of the loop: whatever it does ends the function.\<close>

lemma core_loop_last_attempt:
  assumes "int attempts < maxAttempts" "maxAttempts \<le> int (attempts + 1)"
  shows "core_loop fetch timeout maxAttempts attempts calls =
     (case try_attempt timeout (fetch (calls + 1)) of
        None \<Rightarrow> (None, calls + 1)
      | Some (Inr r) \<Rightarrow> (Some (Returned r), calls + 1)
      | Some (Inl e) \<Rightarrow>
          (Some (Thrown (if name e = ''AbortError'' then timed_out_error else e)), calls + 1))"
  using assms by (subst core_loop.simps) (auto split: option.splits sum.splits)

lemma core_loop_not_exhausted:
  "int attempts < maxAttempts \<Longrightarrow>
   core_loop fetch timeout maxAttempts attempts calls \<noteq> (Some LoopExhausted, c)"
proof (induction fetch timeout maxAttempts attempts calls rule: core_loop.induct)
  case (1 fetch timeout maxAttempts attempts calls)
  show ?case
  proof (cases "try_attempt timeout (fetch (calls + 1))")
    case None
    with "1.prems" show ?thesis by (subst core_loop.simps) simp
  next
    case (Some res)
    show ?thesis
    proof (cases res)
      case (Inr r)
      with Some "1.prems" show ?thesis by (subst core_loop.simps) simp
    next
      case (Inl e)
      show ?thesis
      proof (cases "name e = ''AbortError'' \<or> int (attempts + 1) \<ge> maxAttempts")
        case True
        with Inl Some "1.prems" show ?thesis by (subst core_loop.simps) auto
      next
        case False
        then have "int (attempts + 1) < maxAttempts" by simp
        with "1.IH"[OF "1.prems" Some Inl] False
        have "core_loop fetch timeout maxAttempts (attempts + 1) (calls + 1) \<noteq> (Some LoopExhausted, c)"
          by simp
        with Inl Some "1.prems" False show ?thesis by (subst core_loop.simps) auto
      qed
    qed
  qed
qed

lemma try_attempt_settles:
  "timer_armed timeout \<or> nw \<noteq> Pending \<Longrightarrow> try_attempt timeout nw \<noteq> None"
  by (auto simp: try_attempt_def split: network.splits fetched.splits sum.splits)

lemma core_loop_returns:
  "\<forall>k. timer_armed timeout \<or> fetch k \<noteq> Pending \<Longrightarrow>
   fst (core_loop fetch timeout maxAttempts attempts calls) \<noteq> None"
proof (induction fetch timeout maxAttempts attempts calls rule: core_loop.induct)
  case (1 fetch timeout maxAttempts attempts calls)
  show ?case
  proof (cases "int attempts < maxAttempts")
    case False
    then show ?thesis by (subst core_loop.simps) simp
  next
    case True
    from "1.prems" have "try_attempt timeout (fetch (calls + 1)) \<noteq> None"
      by (intro try_attempt_settles) blast
    then obtain res where Some: "try_attempt timeout (fetch (calls + 1)) = Some res" by blast
    show ?thesis
    proof (cases res)
      case (Inr r)
      with Some True show ?thesis by (subst core_loop.simps) simp
    next
      case (Inl e)
      show ?thesis
      proof (cases "name e = ''AbortError'' \<or> int (attempts + 1) \<ge> maxAttempts")
        case True
        with Inl Some \<open>int attempts < maxAttempts\<close> show ?thesis by (subst core_loop.simps) auto
      next
        case False
        with "1.IH"[OF \<open>int attempts < maxAttempts\<close> Some Inl] "1.prems"
        have "fst (core_loop fetch timeout maxAttempts (attempts + 1) (calls + 1)) \<noteq> None" by simp
        with Inl Some \<open>int attempts < maxAttempts\<close> False show ?thesis
          by (subst core_loop.simps) auto
      qed
    qed
  qed
qed

lemma all_fail_result:
  assumes n: "0 \<le> n" and fails: "\<forall>k. fails_plain timeout (fetch k)"
  shows "\<exists>e. try_attempt timeout (fetch (nat n + 1)) = Some (Inl e) \<and>
             performRequestCore fetch timeout n = (Some (Thrown e), nat n + 1)"
proof -
  have skip: "core_loop fetch timeout (n + 1) 0 0 = core_loop fetch timeout (n + 1) (0 + nat n) (0 + nat n)"
    by (rule core_loop_skip_failures) (use n fails in auto)
  from fails have "fails_plain timeout (fetch (nat n + 1))" by blast
  then obtain e where e: "try_attempt timeout (fetch (nat n + 1)) = Some (Inl e)" "name e \<noteq> ''AbortError''"
    by (auto simp: fails_plain_def split: option.splits sum.splits)
  have "core_loop fetch timeout (n + 1) (nat n) (nat n) = (Some (Thrown e), nat n + 1)"
    by (subst core_loop_last_attempt) (use n e in auto)
  with skip e show ?thesis by (auto simp: performRequestCore_def)
qed

text \<open>
  C1 (as amended). With \<open>maxRetries = n\<close>, \<open>n \<ge> 0\<close>: when every attempt fails with an error
  other than \<open>AbortError\<close> (a rejected call or a non-success status), exactly \<open>n + 1\<close>
  network calls are made and the error of the last one is thrown; when the first attempt
  succeeds, exactly one call is made and its response returned; the function never leaves
  the loop by its end; and it does return once every call settles or a timer is armed.
\<close>

theorem attempts_of_performRequestCore:
  assumes "0 \<le> n"
  shows "((\<forall>k. fails_plain timeout (fetch k)) \<longrightarrow>
            (\<exists>e. try_attempt timeout (fetch (nat n + 1)) = Some (Inl e) \<and>
                 performRequestCore fetch timeout n = (Some (Thrown e), nat n + 1)))
       \<and> (\<forall>r. try_attempt timeout (fetch 1) = Some (Inr r) \<longrightarrow>
            performRequestCore fetch timeout n = (Some (Returned r), 1))
       \<and> (\<forall>c. performRequestCore fetch timeout n \<noteq> (Some LoopExhausted, c))
       \<and> ((\<forall>k. timer_armed timeout \<or> fetch k \<noteq> Pending) \<longrightarrow>
            fst (performRequestCore fetch timeout n) \<noteq> None)"
proof (intro conjI impI allI)
  assume "\<forall>k. fails_plain timeout (fetch k)"
  with assms show "\<exists>e. try_attempt timeout (fetch (nat n + 1)) = Some (Inl e) \<and>
                 performRequestCore fetch timeout n = (Some (Thrown e), nat n + 1)"
    by (rule all_fail_result)
next
  fix r assume "try_attempt timeout (fetch 1) = Some (Inr r)"
  with assms show "performRequestCore fetch timeout n = (Some (Returned r), 1)"
    unfolding performRequestCore_def by (subst core_loop.simps) simp
next
  fix c show "performRequestCore fetch timeout n \<noteq> (Some LoopExhausted, c)"
    unfolding performRequestCore_def by (rule core_loop_not_exhausted) (use assms in simp)
next
  assume "\<forall>k. timer_armed timeout \<or> fetch k \<noteq> Pending"
  then show "fst (performRequestCore fetch timeout n) \<noteq> None"
    unfolding performRequestCore_def by (rule core_loop_returns)
qed

lemma fails_plain_rejects: "fails_plain timeout (net_always_rejects k)"
  by (simp add: fails_plain_def net_always_rejects_def try_attempt_def failed_to_fetch_def)

theorem attempts_of_performRequestCore_witness:
  "(0::int) \<le> 2
   \<and> (\<exists>e. performRequestCore net_always_rejects None 2 = (Some (Thrown e), 3))
   \<and> performRequestCore net_always_ok None 2 = (Some (Returned ok_response), 1)
   \<and> fst (performRequestCore net_always_rejects None 2) \<noteq> None"
proof -
  have h: "(0::int) \<le> 2" by simp
  have ok1: "try_attempt None (net_always_ok 1) = Some (Inr ok_response)"
    by (simp add: try_attempt_def net_always_ok_def ok_response_def)
  have settle: "\<forall>k. timer_armed None \<or> net_always_rejects k \<noteq> Pending"
    by (simp add: net_always_rejects_def)
  from attempts_of_performRequestCore[OF h, of None net_always_rejects] fails_plain_rejects settle
  have a: "\<exists>e. performRequestCore net_always_rejects None 2 = (Some (Thrown e), 3)"
    and c: "fst (performRequestCore net_always_rejects None 2) \<noteq> None"
    by auto
  from attempts_of_performRequestCore[OF h, of None net_always_ok] ok1
  have b: "performRequestCore net_always_ok None 2 = (Some (Returned ok_response), 1)" by blast
  from h a b c show ?thesis by blast
qed

text \<open>
  C1 as stated fails: with \<open>maxRetries = 2\<close> and a timeout configured, a network on which
  every call outlasts the timeout gets one attempt, not three.
\<close>

theorem all_timeouts_counterexample:
  "performRequestCore net_always_pending (Some 1000) 2 = (Some (Thrown timed_out_error), 1)
   \<and> (1::nat) \<noteq> nat 2 + 1"
  by (simp add: performRequestCore_def core_loop.simps try_attempt_def net_always_pending_def timer_armed_def)

text \<open>
  C2 (as amended). With a timer armed, a timeout during attempt \<open>k\<close> (the earlier attempts
  having failed otherwise) ends the request there: exactly \<open>k\<close> network calls are made, so
  attempt \<open>k + 1\<close> does not run even when \<open>k < n + 1\<close>, and the error surfaced is
  \<open>Request timed out\<close>.
\<close>

theorem timeout_ends_request:
  assumes "timer_armed timeout" and "1 \<le> k" and "int k \<le> n + 1"
    and "\<forall>j. 1 \<le> j \<and> j < k \<longrightarrow> fails_plain timeout (fetch j)"
    and "fetch k = Pending"
  shows "performRequestCore fetch timeout n = (Some (Thrown timed_out_error), k)"
proof -
  have skip: "core_loop fetch timeout (n + 1) 0 0
            = core_loop fetch timeout (n + 1) (0 + (k - 1)) (0 + (k - 1))"
    by (rule core_loop_skip_failures) (use assms in auto)
  have "core_loop fetch timeout (n + 1) (k - 1) (k - 1) = (Some (Thrown timed_out_error), k)"
    by (subst core_loop.simps) (use assms in \<open>auto simp: try_attempt_def\<close>)
  with skip show ?thesis by (simp add: performRequestCore_def)
qed

theorem timeout_ends_request_witness:
  "timer_armed (Some 1000) \<and> (1::nat) \<le> 2 \<and> int 2 \<le> 2 + 1
   \<and> fails_plain (Some 1000) (net_reject_then_pending 1)
   \<and> net_reject_then_pending 2 = Pending
   \<and> performRequestCore net_reject_then_pending (Some 1000) 2 = (Some (Thrown timed_out_error), 2)"
proof -
  have a: "timer_armed (Some 1000)" by (simp add: timer_armed_def)
  have b: "(1::nat) \<le> 2" by simp
  have c: "int 2 \<le> 2 + 1" by simp
  have f: "fails_plain (Some 1000) (net_reject_then_pending 1)"
    by (simp add: fails_plain_def net_reject_then_pending_def try_attempt_def failed_to_fetch_def)
  have d: "\<forall>j. 1 \<le> j \<and> j < 2 \<longrightarrow> fails_plain (Some 1000) (net_reject_then_pending j)"
  proof (intro allI impI)
    fix j :: nat assume "1 \<le> j \<and> j < 2"
    then have "j = 1" by simp
    with f show "fails_plain (Some 1000) (net_reject_then_pending j)" by simp
  qed
  have e: "net_reject_then_pending 2 = Pending" by (simp add: net_reject_then_pending_def)
  from timeout_ends_request[OF a b c d e] a b c e f show ?thesis by simp
qed

text \<open>
  C2 as stated fails: with \<open>maxRetries = 1\<close>, the first attempt timing out and a second
  call that would succeed, the second attempt is never made.
\<close>

theorem timeout_retry_counterexample:
  "net_pending_then_ok 2 = Settles (Resolved ok_response)
   \<and> performRequestCore net_pending_then_ok (Some 1000) 1 = (Some (Thrown timed_out_error), 1)"
  by (simp add: performRequestCore_def core_loop.simps try_attempt_def net_pending_then_ok_def timer_armed_def)

section \<open>Properties of the configuration resolver\<close>

lemma parseInt_null: "js_parseInt10 ''null'' = None"
  by (simp add: js_parseInt10_def is_space_def is_digit_def)

lemma parseInt_zero: "js_parseInt10 ''0'' = Some 0"
  by (simp add: js_parseInt10_def is_space_def is_digit_def digits_val_def digit_val_def)

lemma parseInt_twice: "js_parseInt10 ''twice'' = None"
  by (simp add: js_parseInt10_def is_space_def is_digit_def)

lemma resolveMaxRetries_nonzero: "resolveMaxRetries r \<noteq> 0"
  by (simp add: resolveMaxRetries_def split: option.splits)

text \<open>
  C10. In \<open>handleAction\<close> an absent, non-numeric or \<open>0\<close> value of \<open>x-retry\<close> resolves to
  \<open>maxRetries = 1\<close>, with which at most two network calls are made, and exactly two when
  both fail; no value of the attribute resolves to \<open>maxRetries = 0\<close>.
\<close>

theorem maxRetries_never_zero:
  "(getAttributeWithInheritance e ''x-retry'' = None \<longrightarrow> handleAction_maxRetries e = 1)
   \<and> (\<forall>v. getAttributeWithInheritance e ''x-retry'' = Some v \<and> js_parseInt10 v = None \<longrightarrow>
          handleAction_maxRetries e = 1)
   \<and> (getAttributeWithInheritance e ''x-retry'' = Some ''0'' \<longrightarrow> handleAction_maxRetries e = 1)
   \<and> handleAction_maxRetries e \<noteq> 0
   \<and> (\<forall>x c. performRequestCore fetch timeout 1 = (x, c) \<longrightarrow> c \<le> 2)
   \<and> ((\<forall>k. fails_plain timeout (fetch k)) \<longrightarrow>
        (\<exists>err. performRequestCore fetch timeout 1 = (Some (Thrown err), 2)))"
proof (intro conjI impI allI)
  assume "getAttributeWithInheritance e ''x-retry'' = None"
  then show "handleAction_maxRetries e = 1"
    by (simp add: handleAction_maxRetries_def resolveMaxRetries_def js_to_string_def parseInt_null)
next
  fix v assume "getAttributeWithInheritance e ''x-retry'' = Some v \<and> js_parseInt10 v = None"
  then show "handleAction_maxRetries e = 1"
    by (simp add: handleAction_maxRetries_def resolveMaxRetries_def js_to_string_def)
next
  assume "getAttributeWithInheritance e ''x-retry'' = Some ''0''"
  then show "handleAction_maxRetries e = 1"
    by (simp add: handleAction_maxRetries_def resolveMaxRetries_def js_to_string_def parseInt_zero)
next
  show "handleAction_maxRetries e \<noteq> 0"
    by (simp add: handleAction_maxRetries_def resolveMaxRetries_nonzero)
next
  fix x c assume "performRequestCore fetch timeout 1 = (x, c)"
  then have "c \<le> 0 + nat (1 + 1 - int 0)"
    unfolding performRequestCore_def by (rule core_loop_calls_bound)
  then show "c \<le> 2" by simp
next
  assume "\<forall>k. fails_plain timeout (fetch k)"
  with all_fail_result[of 1 timeout fetch]
  show "\<exists>err. performRequestCore fetch timeout 1 = (Some (Thrown err), 2)" by auto
qed

theorem maxRetries_never_zero_witness:
  "getAttributeWithInheritance retry_absent ''x-retry'' = None
   \<and> handleAction_maxRetries retry_absent = 1
   \<and> getAttributeWithInheritance retry_words ''x-retry'' = Some ''twice''
   \<and> js_parseInt10 ''twice'' = None
   \<and> handleAction_maxRetries retry_words = 1
   \<and> getAttributeWithInheritance retry_zero ''x-retry'' = Some ''0''
   \<and> handleAction_maxRetries retry_zero = 1
   \<and> performRequestCore net_always_rejects None 1 = (Some (Thrown failed_to_fetch), 2)"
proof -
  have a: "getAttributeWithInheritance retry_absent ''x-retry'' = None"
    by (simp add: getAttributeWithInheritance_def INHERITABLE_ATTRIBUTES_def retry_absent_def)
  have b: "getAttributeWithInheritance retry_words ''x-retry'' = Some ''twice''"
    by (simp add: getAttributeWithInheritance_def INHERITABLE_ATTRIBUTES_def retry_words_def)
  have c: "getAttributeWithInheritance retry_zero ''x-retry'' = Some ''0''"
    by (simp add: getAttributeWithInheritance_def INHERITABLE_ATTRIBUTES_def retry_zero_def)
  have d: "performRequestCore net_always_rejects None 1 = (Some (Thrown failed_to_fetch), 2)"
    using maxRetries_never_zero[of retry_absent net_always_rejects None] fails_plain_rejects
    by (auto simp: performRequestCore_def core_loop.simps try_attempt_def net_always_rejects_def failed_to_fetch_def)
  from maxRetries_never_zero[of retry_absent] maxRetries_never_zero[of retry_words]
    maxRetries_never_zero[of retry_zero] a b c d parseInt_twice
  show ?thesis by simp
qed

lemma method_names:
  "toUpperCase (js_replace ''x-get'' ''x-'' []) = ''GET''"
  "toUpperCase (js_replace ''x-post'' ''x-'' []) = ''POST''"
  "toUpperCase (js_replace ''x-put'' ''x-'' []) = ''PUT''"
  "toUpperCase (js_replace ''x-delete'' ''x-'' []) = ''DELETE''"
  "toUpperCase (js_replace ''x-patch'' ''x-'' []) = ''PATCH''"
  by code_simp+

lemma lower_GET: "toLowerCase ''GET'' = ''get''"
  by code_simp

lemma actions_not_inheritable: "a \<in> set ACTIONS \<Longrightarrow> a \<notin> set INHERITABLE_ATTRIBUTES"
  by (auto simp: ACTIONS_def INHERITABLE_ATTRIBUTES_def)

lemma has_action_own:
  "a \<in> set ACTIONS \<Longrightarrow> hasAttributeWithInheritance (Element t as p) a = (map_of as a \<noteq> None)"
  by (simp add: hasAttributeWithInheritance_def getAttributeWithInheritance_def
      actions_not_inheritable getAttribute_def)

lemma getMethod_own: "getMethod (Element t as p) = first_action_method as"
  unfolding getMethod_def first_action_method_def ACTIONS_def
  by (simp add: has_action_own ACTIONS_def method_names del: js_replace.simps)

text \<open>
  C8. The method is that of the first action-kind attribute, in the order \<open>x-get\<close>,
  \<open>x-post\<close>, \<open>x-put\<close>, \<open>x-delete\<close>, \<open>x-patch\<close>, found on the element, and \<open>GET\<close> when
  there is none. Ancestors are consulted for inheritable attributes only, and no
  action-kind attribute is inheritable: the parent chain does not change the method.
\<close>

theorem getMethod_first_action:
  "getMethod e = first_action_method (attributes e)
   \<and> getMethod (Element t as p) = getMethod (Element t as q)
   \<and> set ACTIONS \<inter> set INHERITABLE_ATTRIBUTES = {}"
proof (intro conjI)
  show "getMethod e = first_action_method (attributes e)"
    by (cases e) (simp add: getMethod_own)
  show "getMethod (Element t as p) = getMethod (Element t as q)"
    by (simp add: getMethod_own)
  show "set ACTIONS \<inter> set INHERITABLE_ATTRIBUTES = {}"
    using actions_not_inheritable by blast
qed

theorem getMethod_first_action_witness:
  "getMethod (Element ''BUTTON'' [(''x-patch'', ''/a''), (''x-put'', ''/b'')]
       (Some (Element ''DIV'' [(''x-get'', ''/c'')] None))) = ''PUT''"
  using getMethod_first_action[of "Element ''BUTTON'' [(''x-patch'', ''/a''), (''x-put'', ''/b'')]
       (Some (Element ''DIV'' [(''x-get'', ''/c'')] None))"]
  by (simp add: first_action_method_def)

section \<open>Properties of header assembly\<close>

lemma fold_attr_headers:
  "foldl add_attr_header h as = h ++ foldl add_attr_header Map.empty as"
proof (induction as rule: rev_induct)
  case Nil
  then show ?case by simp
next
  case (snoc a as)
  then show ?case by (auto simp: add_attr_header_def map_add_def fun_eq_iff split: option.splits)
qed

text \<open>
  C6 (as amended). In \<open>getHeaders\<close> the CSRF token is injected first and the headers made
  from the element's \<open>x-*\<close> attributes are layered on top. In \<open>prepareRequestHeaders\<close> the
  descriptor's headers are copied first, the configured CSRF token is then written over
  any descriptor value of \<open>X-CSRF-Token\<close>, and the entries of the element's \<open>x-headers\<close>
  object are layered on top last; under every other name the descriptor's value is kept
  unless \<open>x-headers\<close> overrides it.
\<close>

theorem header_precedence:
  "getHeaders p e k =
     (case foldl add_attr_header Map.empty (attributes e) k of
        Some v \<Rightarrow> Some v
      | None \<Rightarrow> if k = ''X-CSRF-Token'' \<and> csrf_active p then Some (csrf_value p) else None)
   \<and> (prepareRequestHeaders JSON_parse p None defaultHeaders = Inr h \<longrightarrow>
        h k = (if k = ''X-CSRF-Token'' \<and> csrf_active p then Some (csrf_value p) else defaultHeaders k))
   \<and> (prepareRequestHeaders JSON_parse p (Some e) defaultHeaders = Inr h' \<and>
        truthy (getAttribute e ''x-headers'') \<and>
        JSON_parse (the (getAttribute e ''x-headers'')) = Inr obj \<longrightarrow>
        h' k = (case map_of obj k of
                  Some v \<Rightarrow> Some v
                | None \<Rightarrow> if k = ''X-CSRF-Token'' \<and> csrf_active p then Some (csrf_value p)
                          else defaultHeaders k))
   \<and> (prepareRequestHeaders JSON_parse p (Some e) defaultHeaders = Inr h' \<and>
        \<not> truthy (getAttribute e ''x-headers'') \<longrightarrow>
        h' k = (if k = ''X-CSRF-Token'' \<and> csrf_active p then Some (csrf_value p) else defaultHeaders k))"
proof (intro conjI impI)
  show "getHeaders p e k =
     (case foldl add_attr_header Map.empty (attributes e) k of
        Some v \<Rightarrow> Some v
      | None \<Rightarrow> if k = ''X-CSRF-Token'' \<and> csrf_active p then Some (csrf_value p) else None)"
    unfolding getHeaders_def
    by (subst fold_attr_headers) (simp add: map_add_def with_csrf_def split: option.splits)
next
  assume "prepareRequestHeaders JSON_parse p None defaultHeaders = Inr h"
  then show "h k = (if k = ''X-CSRF-Token'' \<and> csrf_active p then Some (csrf_value p) else defaultHeaders k)"
    by (auto simp: prepareRequestHeaders_def with_csrf_def)
next
  assume "prepareRequestHeaders JSON_parse p (Some e) defaultHeaders = Inr h' \<and>
        truthy (getAttribute e ''x-headers'') \<and>
        JSON_parse (the (getAttribute e ''x-headers'')) = Inr obj"
  then show "h' k = (case map_of obj k of
                  Some v \<Rightarrow> Some v
                | None \<Rightarrow> if k = ''X-CSRF-Token'' \<and> csrf_active p then Some (csrf_value p)
                          else defaultHeaders k)"
    by (auto simp: prepareRequestHeaders_def with_csrf_def map_add_def split: option.splits)
next
  assume "prepareRequestHeaders JSON_parse p (Some e) defaultHeaders = Inr h' \<and>
        \<not> truthy (getAttribute e ''x-headers'')"
  then show "h' k = (if k = ''X-CSRF-Token'' \<and> csrf_active p then Some (csrf_value p) else defaultHeaders k)"
    by (auto simp: prepareRequestHeaders_def with_csrf_def)
qed

lemma engine_token_csrf: "csrf_active engine_token" "csrf_value engine_token = ''tok''"
  by (simp_all add: engine_token_def csrf_active_def csrf_value_def engine_plain_def)

lemma prepare_token_none:
  "prepareRequestHeaders json_table engine_token None headers_mine
     = Inr (headers_mine(''X-CSRF-Token'' \<mapsto> ''tok''))"
  by (simp add: prepareRequestHeaders_def with_csrf_def engine_token_csrf)

theorem header_precedence_witness:
  "prepareRequestHeaders json_table engine_token None headers_mine
     = Inr (headers_mine(''X-CSRF-Token'' \<mapsto> ''tok''))
   \<and> (headers_mine(''X-CSRF-Token'' \<mapsto> ''tok'')) ''X-CSRF-Token'' = Some ''tok''
   \<and> (headers_mine(''X-CSRF-Token'' \<mapsto> ''tok'')) ''X-Target'' = Some ''content''
   \<and> getHeaders engine_token button_with_handler ''X-On-error'' = Some ''showError''
   \<and> getHeaders engine_token button_with_handler ''X-CSRF-Token'' = Some ''tok''"
proof -
  have caps: "capitalize ''on-error'' = ''On-error''" by code_simp
  have fold: "foldl add_attr_header Map.empty (attributes button_with_handler)
      = [''X-On-error'' \<mapsto> ''showError'']"
    by (simp add: button_with_handler_def add_attr_header_def startsWith_def
        excludedAttributes_def ACTIONS_def caps)
  from header_precedence[of engine_token button_with_handler "''X-On-error''"]
  have a: "getHeaders engine_token button_with_handler ''X-On-error'' = Some ''showError''"
    by (simp add: fold)
  from header_precedence[of engine_token button_with_handler "''X-CSRF-Token''"]
  have b: "getHeaders engine_token button_with_handler ''X-CSRF-Token'' = Some ''tok''"
    by (simp add: fold engine_token_csrf)
  from header_precedence[of engine_token button_with_handler "''X-Target''" json_table headers_mine
      "headers_mine(''X-CSRF-Token'' \<mapsto> ''tok'')"] prepare_token_none
  have c: "(headers_mine(''X-CSRF-Token'' \<mapsto> ''tok'')) ''X-Target'' = Some ''content''"
    by (simp add: headers_mine_def)
  from a b c prepare_token_none show ?thesis by simp
qed

text \<open>
  C6 as stated fails: a descriptor header named \<open>X-CSRF-Token\<close> does not win over the
  engine's token.
\<close>

theorem descriptor_csrf_counterexample:
  "headers_mine ''X-CSRF-Token'' = Some ''mine''
   \<and> header_of (prepareRequestHeaders json_table engine_token None headers_mine) ''X-CSRF-Token''
       = Some ''tok''"
proof -
  have a: "headers_mine ''X-CSRF-Token'' = Some ''mine''" by (simp add: headers_mine_def)
  have b: "header_of (prepareRequestHeaders json_table engine_token None headers_mine) ''X-CSRF-Token''
       = Some ''tok''"
    by (simp add: prepare_token_none header_of_def)
  from a b show ?thesis by simp
qed

section \<open>Properties of error handling\<close>

lemma runHooks_errors:
  "runHooks p hookName eo tgo
     = concat (map (\<lambda>e. handleError p e eo tgo) (hook_errors (hooks p hookName)))"
proof -
  have "concat (map (\<lambda>callback. case callback of HookOk \<Rightarrow> [] | HookThrows error \<Rightarrow> handleError p error eo tgo) hs)
      = concat (map (\<lambda>e. handleError p e eo tgo) (hook_errors hs))" for hs
    by (induction hs) (auto simp: hook_errors_def split: hook.splits)
  then show ?thesis by (simp add: runHooks_def)
qed

lemma handleError_no_window: "\<forall>x \<in> set (handleError p e eo tgo). \<not> is_window_call x"
  by (auto simp: handleError_def is_window_call_def split: option.splits)

lemma runHooks_no_window: "\<forall>x \<in> set (runHooks p hookName eo tgo). \<not> is_window_call x"
  using handleError_no_window by (auto simp: runHooks_def split: hook.splits)

lemma scroll_after_request:
  assumes "truthy (getAttribute parentElem ''x-get'')"
    and "prepareRequestParams p b parentElem 2 = (report, cur, Inr rp)"
    and "performRequest p stack b cur (scroll_descriptor b rp (snd (getChildParamsObject b childParams))) None
           = (effects, r)"
  shows "r = Some (Inl err) \<Longrightarrow>
           handleInfiniteScrollAction p stack b parentElem childParams
             = (report @ fst (getChildParamsObject b childParams) @ effects
                  @ handleError p err (Some cur) (Some cur), Completed)"
    and "r = Some (Inr responseText) \<Longrightarrow> queryAfterResponse b (rp_targetSelector rp) = Inr q
           \<Longrightarrow> found_element parentElem q = None \<Longrightarrow>
           handleInfiniteScrollAction p stack b parentElem childParams
             = (report @ fst (getChildParamsObject b childParams) @ effects
                  @ [ConsoleError (''No element found with selector ''
                       @ quoted (rp_targetSelector rp) @ '' for infinite scroll.'')], Completed)"
  using assms by (simp_all add: handleInfiniteScrollAction_def Let_def)

lemma action_request_failure:
  assumes "performRequest p stack b elt rp timeout = (effects, Some (Inl err))"
  shows "handleAction_request p stack b elt rp timeout target
       = (dispatchCustomEvents (getAttribute elt ''x-before'') @ [DispatchEvent ''beforeSend'']
            @ effects @ handleAction_catch p (windowProperty b) err elt target, Completed)"
  using assms by (simp add: handleAction_request_def Let_def)

text \<open>
  C9 (as amended). A failure caught by the \<open>catch\<close> block of \<open>handleAction\<close> (a failed
  request, for one) goes to the window function named by \<open>x-on-error\<close> when that is present
  and callable, else to the \<open>onError\<close> callback, else to the fallback that logs and writes
  the notice into the target. The other failures that reach a handler are passed to
  \<open>handleError\<close>: every error thrown by a hook, in order and with the element and target of
  the hook's context; an error of an SSE connection and an SSE message that cannot be
  parsed, located or swapped, with the element and no target; a failed infinite-scroll
  request, with the container as element and as target; a rejected action or scroll
  callback, with no target. \<open>handleError\<close> never consults \<open>x-on-error\<close>: it calls \<open>onError\<close>
  when that is a function, and otherwise logs and writes the notice only when it was given
  a target. Some failures reach no handler and are written to the console only: an \<open>x-sse\<close>
  element without a URL, an SSE target that is not in the document, an infinite-scroll
  container without a URL, an infinite-scroll target that is gone when the response
  arrives, malformed \<open>x-params\<close> on the last child of an infinite-scroll container.
\<close>

theorem error_handler_resolution:
  "(truthy (getAttribute elt ''x-on-error'') \<and> is_function (window (the (getAttribute elt ''x-on-error''))) \<longrightarrow>
      handleAction_catch p window err elt target
        = [CallWindowHandler (the (getAttribute elt ''x-on-error'')) err elt])
   \<and> (\<not> (truthy (getAttribute elt ''x-on-error'') \<and> is_function (window (the (getAttribute elt ''x-on-error''))))
        \<and> is_function (onError p) \<longrightarrow>
      handleAction_catch p window err elt target
        = [CallOnError (function_name (onError p)) err (Some elt)])
   \<and> (\<not> (truthy (getAttribute elt ''x-on-error'') \<and> is_function (window (the (getAttribute elt ''x-on-error''))))
        \<and> \<not> is_function (onError p) \<longrightarrow>
      handleAction_catch p window err elt target
        = [ConsoleError ''Request failed:'', SetInnerHTML target (error_notice err)])
   \<and> (performRequest p stack b elt rp timeout = (effects, Some (Inl err)) \<longrightarrow>
      handleAction_request p stack b elt rp timeout target
        = (dispatchCustomEvents (getAttribute elt ''x-before'') @ [DispatchEvent ''beforeSend'']
             @ effects @ handleAction_catch p (windowProperty b) err elt target, Completed))
   \<and> (is_function (onError p) \<longrightarrow>
      handleError p err eo tgo = [CallOnError (function_name (onError p)) err eo])
   \<and> (\<not> is_function (onError p) \<longrightarrow>
      handleError p err eo (Some target) = [ConsoleError ''Error:'', SetInnerHTML target (error_notice err)]
      \<and> handleError p err eo None = [ConsoleError ''Error:''])
   \<and> runHooks p hookName eo tgo
        = concat (map (\<lambda>e. handleError p e eo tgo) (hook_errors (hooks p hookName)))
   \<and> sse_onerror p err elt = handleError p err (Some elt) None
   \<and> handleSSEMessage p (Inl err) targetInBody swapped elt = handleError p err (Some elt) None
   \<and> handleSSEMessage p (Inr msg) (Inl err) swapped elt = handleError p err (Some elt) None
   \<and> handleSSEMessage p (Inr msg) (Inr True) (Some err) elt = handleError p err (Some elt) None
   \<and> (truthy (getAttribute elt ''x-get'')
        \<and> prepareRequestParams p b elt 2 = (report, cur, Inr rp)
        \<and> performRequest p stack b cur (scroll_descriptor b rp (snd (getChildParamsObject b childParams))) None
              = (effects, Some (Inl err)) \<longrightarrow>
      handleInfiniteScrollAction p stack b elt childParams
        = (report @ fst (getChildParamsObject b childParams) @ effects
             @ handleError p err (Some cur) (Some cur), Completed))
   \<and> (handleAction p stack b elt = (effects, RejectedWith err) \<longrightarrow>
      trigger p stack b elt = effects @ handleError p err (Some elt) None)
   \<and> (handleInfiniteScrollAction p stack b elt childParams = (effects, RejectedWith err) \<longrightarrow>
      scroll_intersect p stack b elt childParams = effects @ handleError p err (Some elt) None)
   \<and> (\<forall>x \<in> set (handleError p err eo tgo). \<not> is_window_call x)
   \<and> (\<forall>x \<in> set (runHooks p hookName eo tgo). \<not> is_window_call x)
   \<and> (\<not> truthy (getAttribute elt ''x-sse'') \<longrightarrow>
      setupSSEElement_report elt = [ConsoleError ''No URL specified in x-sse attribute on element:''])
   \<and> (\<exists>msgtext. handleSSEMessage p (Inr msg) (Inr False) swapped elt = [ConsoleError msgtext])
   \<and> (\<not> truthy (getAttribute elt ''x-get'') \<longrightarrow>
      handleInfiniteScrollAction p stack b elt childParams
        = ([ConsoleError ''No URL specified for infinite scroll.''], Completed))
   \<and> (truthy (getAttribute elt ''x-get'')
        \<and> prepareRequestParams p b elt 2 = (report, cur, Inr rp)
        \<and> performRequest p stack b cur (scroll_descriptor b rp (snd (getChildParamsObject b childParams))) None
              = (effects, Some (Inr responseText))
        \<and> queryAfterResponse b (rp_targetSelector rp) = Inr q
        \<and> found_element elt q = None \<longrightarrow>
      handleInfiniteScrollAction p stack b elt childParams
        = (report @ fst (getChildParamsObject b childParams) @ effects
             @ [ConsoleError (''No element found with selector ''
                  @ quoted (rp_targetSelector rp) @ '' for infinite scroll.'')], Completed))
   \<and> (truthy childParams \<and> jsonParse b (the childParams) = Inl err \<longrightarrow>
      getChildParamsObject b childParams
        = ([ConsoleError ''Invalid JSON in x-params attribute of last child:''], []))"
proof (intro conjI)
  show "runHooks p hookName eo tgo
        = concat (map (\<lambda>e. handleError p e eo tgo) (hook_errors (hooks p hookName)))"
    by (rule runHooks_errors)
  show "\<forall>x \<in> set (handleError p err eo tgo). \<not> is_window_call x" by (rule handleError_no_window)
  show "\<forall>x \<in> set (runHooks p hookName eo tgo). \<not> is_window_call x" by (rule runHooks_no_window)
  show "performRequest p stack b elt rp timeout = (effects, Some (Inl err)) \<longrightarrow>
      handleAction_request p stack b elt rp timeout target
        = (dispatchCustomEvents (getAttribute elt ''x-before'') @ [DispatchEvent ''beforeSend'']
             @ effects @ handleAction_catch p (windowProperty b) err elt target, Completed)"
    using action_request_failure by blast
  show "truthy (getAttribute elt ''x-get'')
        \<and> prepareRequestParams p b elt 2 = (report, cur, Inr rp)
        \<and> performRequest p stack b cur (scroll_descriptor b rp (snd (getChildParamsObject b childParams))) None
              = (effects, Some (Inl err)) \<longrightarrow>
      handleInfiniteScrollAction p stack b elt childParams
        = (report @ fst (getChildParamsObject b childParams) @ effects
             @ handleError p err (Some cur) (Some cur), Completed)"
    using scroll_after_request(1)[of elt p b report cur rp stack childParams effects "Some (Inl err)" err]
    by blast
  show "truthy (getAttribute elt ''x-get'')
        \<and> prepareRequestParams p b elt 2 = (report, cur, Inr rp)
        \<and> performRequest p stack b cur (scroll_descriptor b rp (snd (getChildParamsObject b childParams))) None
              = (effects, Some (Inr responseText))
        \<and> queryAfterResponse b (rp_targetSelector rp) = Inr q
        \<and> found_element elt q = None \<longrightarrow>
      handleInfiniteScrollAction p stack b elt childParams
        = (report @ fst (getChildParamsObject b childParams) @ effects
             @ [ConsoleError (''No element found with selector ''
                  @ quoted (rp_targetSelector rp) @ '' for infinite scroll.'')], Completed)"
    using scroll_after_request(2)[of elt p b report cur rp stack childParams effects
        "Some (Inr responseText)" responseText q]
    by blast
  show "handleAction p stack b elt = (effects, RejectedWith err) \<longrightarrow>
      trigger p stack b elt = effects @ handleError p err (Some elt) None"
    by (simp add: trigger_def)
  show "handleInfiniteScrollAction p stack b elt childParams = (effects, RejectedWith err) \<longrightarrow>
      scroll_intersect p stack b elt childParams = effects @ handleError p err (Some elt) None"
    by (simp add: scroll_intersect_def)
  show "truthy childParams \<and> jsonParse b (the childParams) = Inl err \<longrightarrow>
      getChildParamsObject b childParams
        = ([ConsoleError ''Invalid JSON in x-params attribute of last child:''], [])"
    by (simp add: getChildParamsObject_def)
qed (simp_all add: handleAction_catch_def handleError_def Let_def sse_onerror_def handleSSEMessage_def
      setupSSEElement_report_def handleInfiniteScrollAction_def)

lemma scroll_list_prepared:
  assumes "documentQuery b = query_content"
  shows "prepareRequestParams engine_plain b scroll_list 2 = ([], scroll_list, Inr scroll_list_descriptor)"
proof -
  have m: "getMethod scroll_list = ''GET''"
    by (simp add: scroll_list_def getMethod_own first_action_method_def)
  have a: "getAttributeWithInheritance scroll_list ''x-get'' = Some ''/items''"
    "getAttributeWithInheritance scroll_list ''x-target'' = Some ''#content''"
    "getAttributeWithInheritance scroll_list ''x-params'' = None"
    by (simp_all add: scroll_list_def getAttribute_def getAttributeWithInheritance_def
        INHERITABLE_ATTRIBUTES_def)
  have q: "documentQuery b w ''#content'' = Inr (Some (Other target_div))" for w
    by (simp add: assms query_content_def)
  have i: "getAttribute target_div ''id'' = Some ''content''"
    by (simp add: target_div_def getAttribute_def)
  show ?thesis
    by (simp add: prepareRequestParams_def extractRequestParams_def Let_def m lower_GET a q i
        targetSelector_of_def truthy_def found_element_def located_def after_report_def
        notice_written_def scroll_list_descriptor_def)
qed

lemma concrete_requests:
  "performRequest engine_plain [] browser_offline scroll_list
      (scroll_descriptor browser_offline scroll_list_descriptor
         (snd (getChildParamsObject browser_offline None))) None
     = ([NetworkCalls ''GET'' ''/items'' 3, ConsoleError ''performRequestCore failed:''],
        Some (Inl failed_to_fetch))"
  "performRequest engine_plain [] browser_target_gone scroll_list
      (scroll_descriptor browser_target_gone scroll_list_descriptor
         (snd (getChildParamsObject browser_target_gone None))) None
     = ([NetworkCalls ''GET'' ''/items'' 1], Some (Inr ''<p>hi</p>''))"
  "performRequest engine_plain [] browser_offline button_with_handler descriptor_a None
     = ([NetworkCalls ''GET'' ''/a'' 1, ConsoleError ''performRequestCore failed:''],
        Some (Inl failed_to_fetch))"
  "handleAction engine_plain [] browser_simple target_div
     = ([], RejectedWith (JsError ''Error'' ''No URL specified for method GET on element.''))"
  "handleInfiniteScrollAction engine_plain [] browser_simple scroll_lost None
     = ([], RejectedWith (target_not_found ''#missing''))"
  by code_simp+

theorem error_handler_resolution_witness:
  "handleAction_catch engine_failing_hook window_with_handler boom button_with_handler target_div
     = [CallWindowHandler ''showError'' boom button_with_handler]
   \<and> handleError engine_onError boom (Some button_with_handler) (Some target_div)
     = [CallOnError ''report'' boom (Some button_with_handler)]
   \<and> handleAction_catch engine_onError window_empty boom button_with_handler target_div
     = [CallOnError ''report'' boom (Some button_with_handler)]
   \<and> handleAction_catch engine_plain window_empty boom button_with_handler target_div
     = [ConsoleError ''Request failed:'', SetInnerHTML target_div (error_notice boom)]
   \<and> handleError engine_failing_hook boom (Some button_with_handler) None = [ConsoleError ''Error:'']
   \<and> \<not> is_window_call (ConsoleError ''Error:'')
   \<and> hook_errors (hooks engine_failing_hook ''onAction'') = [boom]
   \<and> runHooks engine_failing_hook ''onAction'' (Some button_with_handler) None = [ConsoleError ''Error:'']
   \<and> handleAction_request engine_plain [] browser_offline button_with_handler descriptor_a None target_div
     = ([DispatchEvent ''beforeSend'', NetworkCalls ''GET'' ''/a'' 1,
         ConsoleError ''performRequestCore failed:'',
         CallWindowHandler ''showError'' failed_to_fetch button_with_handler], Completed)
   \<and> truthy (getAttribute scroll_list ''x-on-error'')
   \<and> is_function (windowProperty browser_offline (the (getAttribute scroll_list ''x-on-error'')))
   \<and> handleInfiniteScrollAction engine_plain [] browser_offline scroll_list None
     = ([NetworkCalls ''GET'' ''/items'' 3, ConsoleError ''performRequestCore failed:'',
         ConsoleError ''Error:'', SetInnerHTML scroll_list (error_notice failed_to_fetch)], Completed)
   \<and> trigger engine_plain [] browser_simple target_div = [ConsoleError ''Error:'']
   \<and> scroll_intersect engine_plain [] browser_simple scroll_lost None = [ConsoleError ''Error:'']
   \<and> setupSSEElement_report target_div = [ConsoleError ''No URL specified in x-sse attribute on element:'']
   \<and> handleInfiniteScrollAction engine_plain [] browser_simple target_div None
     = ([ConsoleError ''No URL specified for infinite scroll.''], Completed)
   \<and> handleInfiniteScrollAction engine_plain [] browser_target_gone scroll_list None
     = ([NetworkCalls ''GET'' ''/items'' 1,
         ConsoleError (''No element found with selector '' @ quoted ''#content'' @ '' for infinite scroll.'')],
        Completed)
   \<and> getChildParamsObject browser_simple (Some ''{page:'')
     = ([ConsoleError ''Invalid JSON in x-params attribute of last child:''], [])"
proof -
  have attr: "getAttribute button_with_handler ''x-on-error'' = Some ''showError''"
    "getAttribute button_with_handler ''x-before'' = None"
    by (simp_all add: getAttribute_def button_with_handler_def)
  have t: "truthy (getAttribute button_with_handler ''x-on-error'')"
    by (simp add: attr truthy_def)
  have f: "is_function (window_with_handler (the (getAttribute button_with_handler ''x-on-error'')))"
    "is_function (windowProperty browser_offline (the (getAttribute button_with_handler ''x-on-error'')))"
    "\<not> is_function (window_empty (the (getAttribute button_with_handler ''x-on-error'')))"
    by (simp_all add: attr window_with_handler_def is_function_def browser_offline_def window_empty_def)
  have g: "is_function (onError engine_onError)" "function_name (onError engine_onError) = ''report''"
    by (simp_all add: engine_onError_def engine_plain_def is_function_def function_name_def)
  have n: "\<not> is_function (onError engine_failing_hook)" "\<not> is_function (onError engine_plain)"
    by (simp_all add: engine_failing_hook_def engine_plain_def is_function_def)
  have he: "hook_errors (hooks engine_failing_hook ''onAction'') = [boom]"
    by (simp add: hook_errors_def engine_failing_hook_def engine_plain_def failing_onAction_def)
  have sx: "getAttribute scroll_list ''x-on-error'' = Some ''showError''"
    "truthy (getAttribute scroll_list ''x-get'')"
    by (simp_all add: scroll_list_def getAttribute_def truthy_def)
  have sw: "is_function (windowProperty browser_offline (the (getAttribute scroll_list ''x-on-error'')))"
    by (simp add: sx browser_offline_def window_with_handler_def is_function_def)
  have ch: "getChildParamsObject b None = ([], [])" for b
    by (simp add: getChildParamsObject_def truthy_def)
  have dq: "documentQuery browser_offline = query_content" "documentQuery browser_target_gone = query_content"
    by (simp_all add: browser_offline_def browser_target_gone_def browser_simple_def)
  have td: "\<not> truthy (getAttribute target_div ''x-sse'')" "\<not> truthy (getAttribute target_div ''x-get'')"
    by (simp_all add: target_div_def getAttribute_def truthy_def)
  have gone: "queryAfterResponse browser_target_gone (rp_targetSelector scroll_list_descriptor) = Inr None"
    "found_element scroll_list None = None" "rp_targetSelector scroll_list_descriptor = ''#content''"
    by (simp_all add: browser_target_gone_def query_nothing_def found_element_def scroll_list_descriptor_def)
  have jp: "truthy (Some ''{page:'')" "jsonParse browser_simple (the (Some ''{page:'')) = Inl syntax_error"
    by (simp_all add: truthy_def browser_simple_def json_table_def)
  have dc: "dispatchCustomEvents None = []" by (simp add: dispatchCustomEvents_def truthy_def)
  note r1 = error_handler_resolution[where elt = button_with_handler and window = window_with_handler
      and p = engine_failing_hook and err = boom and target = target_div
      and eo = "Some button_with_handler" and tgo = None and hookName = "''onAction''"]
  note r2 = error_handler_resolution[where elt = button_with_handler and window = window_empty
      and p = engine_onError and err = boom and target = target_div
      and eo = "Some button_with_handler" and tgo = "Some target_div"]
  note r2' = error_handler_resolution[where elt = button_with_handler and window = window_empty
      and p = engine_plain and err = boom and target = target_div]
  note r3 = error_handler_resolution[where elt = scroll_list and p = engine_plain and b = browser_offline
      and err = failed_to_fetch and target = scroll_list and eo = "Some scroll_list"
      and tgo = "Some scroll_list" and stack = "[]" and childParams = None
      and report = "[]" and cur = scroll_list and rp = scroll_list_descriptor
      and effects = "[NetworkCalls ''GET'' ''/items'' 3, ConsoleError ''performRequestCore failed:'']"]
  note r4 = error_handler_resolution[where elt = button_with_handler and p = engine_plain
      and b = browser_offline and window = "windowProperty browser_offline"
      and err = failed_to_fetch and target = target_div and stack = "[]" and rp = descriptor_a
      and timeout = None
      and effects = "[NetworkCalls ''GET'' ''/a'' 1, ConsoleError ''performRequestCore failed:'']"]
  note r5 = error_handler_resolution[where elt = target_div and p = engine_plain and b = browser_simple
      and stack = "[]" and effects = "[]" and eo = "Some target_div" and tgo = None and childParams = None
      and err = "JsError ''Error'' ''No URL specified for method GET on element.''"]
  note r6 = error_handler_resolution[where elt = scroll_lost and p = engine_plain and b = browser_simple
      and stack = "[]" and effects = "[]" and eo = "Some scroll_lost" and tgo = None and childParams = None
      and err = "target_not_found ''#missing''"]
  note r7 = error_handler_resolution[where elt = scroll_list and p = engine_plain
      and b = browser_target_gone and stack = "[]" and childParams = None
      and report = "[]" and cur = scroll_list and rp = scroll_list_descriptor
      and effects = "[NetworkCalls ''GET'' ''/items'' 1]" and responseText = "''<p>hi</p>''"
      and q = None]
  note r8 = error_handler_resolution[where b = browser_simple and childParams = "Some ''{page:''"
      and err = syntax_error]
  from r1 t f attr have a: "handleAction_catch engine_failing_hook window_with_handler boom button_with_handler target_div
     = [CallWindowHandler ''showError'' boom button_with_handler]" by simp
  from r2 g have b: "handleError engine_onError boom (Some button_with_handler) (Some target_div)
     = [CallOnError ''report'' boom (Some button_with_handler)]" by simp
  from r2 g f have b2: "handleAction_catch engine_onError window_empty boom button_with_handler target_div
     = [CallOnError ''report'' boom (Some button_with_handler)]" by simp
  from r2' n f have b3: "handleAction_catch engine_plain window_empty boom button_with_handler target_div
     = [ConsoleError ''Request failed:'', SetInnerHTML target_div (error_notice boom)]" by simp
  from r1 n have c: "handleError engine_failing_hook boom (Some button_with_handler) None = [ConsoleError ''Error:'']"
    by simp
  from r1 c have d: "\<not> is_window_call (ConsoleError ''Error:'')" by simp
  from r1 he c have e: "runHooks engine_failing_hook ''onAction'' (Some button_with_handler) None = [ConsoleError ''Error:'']"
    by simp
  from r4 t f attr have k: "handleAction_catch engine_plain (windowProperty browser_offline) failed_to_fetch
      button_with_handler target_div = [CallWindowHandler ''showError'' failed_to_fetch button_with_handler]"
    by simp
  from r4 concrete_requests(3) k attr dc
  have rq: "handleAction_request engine_plain [] browser_offline button_with_handler descriptor_a None target_div
     = ([DispatchEvent ''beforeSend'', NetworkCalls ''GET'' ''/a'' 1,
         ConsoleError ''performRequestCore failed:'',
         CallWindowHandler ''showError'' failed_to_fetch button_with_handler], Completed)"
    by simp
  from r3 n have h: "handleError engine_plain failed_to_fetch (Some scroll_list) (Some scroll_list)
     = [ConsoleError ''Error:'', SetInnerHTML scroll_list (error_notice failed_to_fetch)]"
    by simp
  from r3 sx scroll_list_prepared[OF dq(1)] concrete_requests(1) h ch
  have s: "handleInfiniteScrollAction engine_plain [] browser_offline scroll_list None
     = ([NetworkCalls ''GET'' ''/items'' 3, ConsoleError ''performRequestCore failed:'',
         ConsoleError ''Error:'', SetInnerHTML scroll_list (error_notice failed_to_fetch)], Completed)"
    by simp
  from r5 n have h5: "handleError engine_plain (JsError ''Error'' ''No URL specified for method GET on element.'')
      (Some target_div) None = [ConsoleError ''Error:'']" by simp
  from r5 concrete_requests(4) h5
  have tr: "trigger engine_plain [] browser_simple target_div = [ConsoleError ''Error:'']" by simp
  from r6 n have h6: "handleError engine_plain (target_not_found ''#missing'') (Some scroll_lost) None
     = [ConsoleError ''Error:'']" by simp
  from r6 concrete_requests(5) h6
  have si: "scroll_intersect engine_plain [] browser_simple scroll_lost None = [ConsoleError ''Error:'']"
    by simp
  from r5 td have sse: "setupSSEElement_report target_div
     = [ConsoleError ''No URL specified in x-sse attribute on element:'']" by simp
  from r5 td have nourl: "handleInfiniteScrollAction engine_plain [] browser_simple target_div None
     = ([ConsoleError ''No URL specified for infinite scroll.''], Completed)" by simp
  from r7 sx scroll_list_prepared[OF dq(2)] concrete_requests(2) gone ch
  have lost: "handleInfiniteScrollAction engine_plain [] browser_target_gone scroll_list None
     = ([NetworkCalls ''GET'' ''/items'' 1,
         ConsoleError (''No element found with selector '' @ quoted ''#content'' @ '' for infinite scroll.'')],
        Completed)"
    by simp
  from r8 jp have cp: "getChildParamsObject browser_simple (Some ''{page:'')
     = ([ConsoleError ''Invalid JSON in x-params attribute of last child:''], [])" by simp
  from a b b2 b3 c d he e rq sx sw s tr si sse nourl lost cp show ?thesis by (simp add: truthy_def)
qed

text \<open>
  C9 as stated fails: for an element whose \<open>x-on-error\<close> names a callable window function,
  a failing \<open>onAction\<close> hook is not routed to that function but to the fallback, while the
  \<open>catch\<close> block of \<open>handleAction\<close> does call it.
\<close>

theorem hook_failure_counterexample:
  "runHooks engine_failing_hook ''onAction'' (Some button_with_handler) (Some target_div)
     = [ConsoleError ''Error:'', SetInnerHTML target_div (error_notice boom)]
   \<and> handleAction_catch engine_failing_hook window_with_handler boom button_with_handler target_div
     = [CallWindowHandler ''showError'' boom button_with_handler]"
  by (simp add: runHooks_def engine_failing_hook_def engine_plain_def failing_onAction_def
      handleError_def is_function_def handleAction_catch_def getAttribute_def
      button_with_handler_def truthy_def window_with_handler_def)

section \<open>Properties of the swap primitive\<close>

lemma fresh_unlistened: "unlistened (fresh mk)"
  by (induction mk) (simp_all add: no_marks_def list_all_iff)

lemma scan_fresh_activated: "activated_once (scan_node parent (fresh mk))"
proof (induction mk arbitrary: parent)
  case (MText s)
  then show ?case by simp
next
  case (MElem t as cs)
  then show ?case
    by (auto simp: list_all_iff setup_matched_def setupElement_def setupSSEElement_def
        no_marks_def hasAttribute_def is_declarative_def)
qed

lemma replacement_activates:
  "list_all activated_once (performSwap targetElement newContent ''outerHTML'')"
  "list_all activated_once (child_nodes (hd (performSwap (Elem t as m cs) newContent ''innerHTML'')))"
  by (simp_all add: performSwap_def Let_def scanFragment_def list_all_iff scan_fresh_activated
      set_child_nodes_def child_nodes_def)

lemma insertion_leaves_unlistened:
  "performSwap (Elem t as m cs) newContent ''beforeend'' = [Elem t as m (cs @ map fresh newContent)]"
  "performSwap (Elem t as m cs) newContent ''afterbegin'' = [Elem t as m (map fresh newContent @ cs)]"
  "performSwap targetElement newContent ''beforebegin'' = map fresh newContent @ [targetElement]"
  "performSwap targetElement newContent ''afterend'' = targetElement # map fresh newContent"
  "list_all unlistened (map fresh newContent)"
  by (simp_all add: performSwap_def Let_def set_child_nodes_def child_nodes_def list_all_iff
      fresh_unlistened)

lemma go_button_fresh:
  "fresh go_button = Elem ''BUTTON'' [(''x-get'', ''/more'')] no_marks [Text ''Go'']"
  by (simp add: go_button_def)

lemma go_button_trim: "html_trim [go_button] = [go_button]"
  by (simp add: html_trim_def trim_left_def trim_right_def go_button_def)

lemma go_button_scanned:
  "scanFragment [Elem ''BUTTON'' [(''x-get'', ''/more'')] no_marks [Text ''Go'']] =
     [Elem ''BUTTON'' [(''x-get'', ''/more'')]
        (no_marks\<lparr>listeners := [''click''], xRequestHandlerInitialized := True\<rparr>) [Text ''Go'']]"
  by code_simp

text \<open>
  The scan that \<open>processResponse\<close> runs on the target after the swap reaches content
  inserted inside the target (\<open>beforeend\<close>), not content inserted beside it (\<open>afterend\<close>).
\<close>

lemma rescan_misses_siblings:
  "processResponse engine_plain (query_ids live_doc) live_doc button_response
       [(''X-Swap'', ''afterend'')] [0, 0, 0] target_div retry_absent
     = Inr ([Elem ''HTML'' [] no_marks
              [Elem ''BODY'' [] no_marks
                 [Elem ''DIV'' [(''id'', ''content'')] no_marks [Text ''old main''],
                  Elem ''BUTTON'' [(''x-get'', ''/more'')] no_marks [Text ''Go''],
                  Elem ''DIV'' [(''id'', ''side'')] no_marks [Text ''old side''],
                  Elem ''SPAN'' [(''id'', ''count'')] no_marks [Text ''2'']]]],
            [DispatchEvent ''beforeUpdate'', DispatchEvent ''afterUpdate''])"
  "processResponse engine_plain (query_ids live_doc) live_doc button_response
       [(''X-Swap'', ''beforeend'')] [0, 0, 0] target_div retry_absent
     = Inr ([Elem ''HTML'' [] no_marks
              [Elem ''BODY'' [] no_marks
                 [Elem ''DIV'' [(''id'', ''content'')] no_marks
                    [Text ''old main'',
                     Elem ''BUTTON'' [(''x-get'', ''/more'')]
                       (no_marks\<lparr>listeners := [''click''], xRequestHandlerInitialized := True\<rparr>)
                       [Text ''Go'']],
                  Elem ''DIV'' [(''id'', ''side'')] no_marks [Text ''old side''],
                  Elem ''SPAN'' [(''id'', ''count'')] no_marks [Text ''2'']]]],
            [DispatchEvent ''beforeUpdate'', DispatchEvent ''afterUpdate''])"
  by code_simp+

text \<open>
  C5 does not hold of the code. The fragment is activated before the swap, and \<open>outerHTML\<close>
  and \<open>innerHTML\<close> insert that fragment; the four insertions hand the text of the content
  to \<open>insertAdjacentHTML\<close>, which parses it again, so the elements that enter the
  document carry no listener. Swapping a button that declares \<open>x-get\<close> into a container:
\<close>

theorem insertion_skips_activation:
  "performSwap list_div [go_button] ''beforeend''
     = [Elem ''DIV'' [(''id'', ''list'')] no_marks
          [Text ''old'', Elem ''BUTTON'' [(''x-get'', ''/more'')] no_marks [Text ''Go'']]]
   \<and> performSwap list_div [go_button] ''afterbegin''
     = [Elem ''DIV'' [(''id'', ''list'')] no_marks
          [Elem ''BUTTON'' [(''x-get'', ''/more'')] no_marks [Text ''Go''], Text ''old'']]
   \<and> performSwap list_div [go_button] ''beforebegin''
     = [Elem ''BUTTON'' [(''x-get'', ''/more'')] no_marks [Text ''Go''], list_div]
   \<and> performSwap list_div [go_button] ''afterend''
     = [list_div, Elem ''BUTTON'' [(''x-get'', ''/more'')] no_marks [Text ''Go'']]
   \<and> listeners no_marks = []
   \<and> performSwap list_div [go_button] ''innerHTML''
     = [Elem ''DIV'' [(''id'', ''list'')] no_marks
          [Elem ''BUTTON'' [(''x-get'', ''/more'')]
             (no_marks\<lparr>listeners := [''click''], xRequestHandlerInitialized := True\<rparr>) [Text ''Go'']]]
   \<and> performSwap list_div [go_button] ''outerHTML''
     = [Elem ''BUTTON'' [(''x-get'', ''/more'')]
          (no_marks\<lparr>listeners := [''click''], xRequestHandlerInitialized := True\<rparr>) [Text ''Go'']]"
proof -
  have l: "listeners no_marks = []" by (simp add: no_marks_def)
  show ?thesis
    by (simp add: performSwap_def Let_def go_button_trim go_button_scanned go_button_fresh
        list_div_def set_child_nodes_def child_nodes_def l del: fresh.simps)
qed

section \<open>Properties of out-of-band swapping\<close>


lemma has_oob_prune: "has_oob (prune mk) = has_oob mk"
  by (cases mk) (simp_all add: has_oob_def)















lemma response_doc_extract:
  "extractOob response_doc = Inr (collect response_doc, [MElem ''P'' [] [MText ''main'']])"
  by code_simp






section \<open>Properties of the response overrides\<close>

lemma target_from_header:
  assumes "truthy sel"
    and "querySelector (the sel) = Inr (Some path)
         \<or> (querySelector (the sel) = Inr None \<and> getElementById doc (the sel) = Some path)"
  shows "processResponse_target querySelector doc sel targetElement = Inr (TargetNode path, [])"
  using assms by (auto simp: processResponse_target_def)

text \<open>
  C3 (as amended). The strategy handed to the primary swap is the value of the \<open>X-Swap\<close>
  response header when that header is present and not empty; otherwise the element's own
  or inherited \<open>x-swap\<close> attribute when that is present and not empty; otherwise the
  engine's default. When the \<open>X-Target\<close> header holds a selector that
  \<open>document.querySelector\<close>, or failing that \<open>document.getElementById\<close>, resolves, the
  primary swap is done on that node and not on the caller's target.
\<close>

theorem response_overrides:
  "(truthy (headers_get hs ''X-Swap'') \<longrightarrow>
      processResponse_swapOption p elt (headers_get hs ''X-Swap'') = the (headers_get hs ''X-Swap''))
   \<and> (\<not> truthy (headers_get hs ''X-Swap'') \<and> truthy (getAttributeWithInheritance elt ''x-swap'') \<longrightarrow>
      processResponse_swapOption p elt (headers_get hs ''X-Swap'')
        = the (getAttributeWithInheritance elt ''x-swap''))
   \<and> (\<not> truthy (headers_get hs ''X-Swap'') \<and> \<not> truthy (getAttributeWithInheritance elt ''x-swap'') \<longrightarrow>
      processResponse_swapOption p elt (headers_get hs ''X-Swap'') = defaultSwapOption p)
   \<and> (truthy (headers_get hs ''X-Target'')
        \<and> (querySelector (the (headers_get hs ''X-Target'')) = Inr (Some path)
            \<or> (querySelector (the (headers_get hs ''X-Target'')) = Inr None
                \<and> getElementById doc (the (headers_get hs ''X-Target'')) = Some path))
        \<and> extractOob responseDoc = Inr (oobElements, newContent) \<longrightarrow>
      processResponse_primary p querySelector doc responseDoc hs targetElement elt
        = Inr (modify_at (\<lambda>parent existing. performSwap existing newContent
                            (processResponse_swapOption p elt (headers_get hs ''X-Swap'')))
                 None path doc,
               oobElements, TargetNode path,
               processResponse_swapOption p elt (headers_get hs ''X-Swap''),
               newContent, [DispatchEvent ''beforeUpdate'']))"
proof (intro conjI impI)
  assume "truthy (headers_get hs ''X-Target'')
        \<and> (querySelector (the (headers_get hs ''X-Target'')) = Inr (Some path)
            \<or> (querySelector (the (headers_get hs ''X-Target'')) = Inr None
                \<and> getElementById doc (the (headers_get hs ''X-Target'')) = Some path))
        \<and> extractOob responseDoc = Inr (oobElements, newContent)"
  then have t: "processResponse_target querySelector doc (headers_get hs ''X-Target'') targetElement
        = Inr (TargetNode path, [])"
    and e: "extractOob responseDoc = Inr (oobElements, newContent)"
    by (simp_all add: target_from_header)
  show "processResponse_primary p querySelector doc responseDoc hs targetElement elt
        = Inr (modify_at (\<lambda>parent existing. performSwap existing newContent
                            (processResponse_swapOption p elt (headers_get hs ''X-Swap'')))
                 None path doc,
               oobElements, TargetNode path,
               processResponse_swapOption p elt (headers_get hs ''X-Swap''),
               newContent, [DispatchEvent ''beforeUpdate''])"
    by (simp add: processResponse_primary_def t e Let_def swap_in_document_def)
qed (simp_all add: processResponse_swapOption_def Let_def)

lemma swap_header_values:
  "headers_get swap_header ''X-Swap'' = Some ''outerHTML''"
  "headers_get swap_header ''X-Target'' = Some ''#side''"
  by code_simp+

lemma side_found: "query_ids live_doc ''#side'' = Inr (Some [0, 0, 1])"
  by code_simp

theorem response_overrides_witness:
  "headers_get swap_header ''X-Swap'' = Some ''outerHTML''
   \<and> headers_get swap_header ''X-Target'' = Some ''#side''
   \<and> query_ids live_doc ''#side'' = Inr (Some [0, 0, 1])
   \<and> getAttributeWithInheritance outer_button ''x-swap'' = Some ''outerHTML''
   \<and> processResponse_swapOption engine_plain outer_button (headers_get [] ''X-Swap'') = ''outerHTML''
   \<and> processResponse_swapOption engine_plain retry_absent (headers_get [] ''X-Swap'') = ''innerHTML''
   \<and> processResponse_primary engine_plain (query_ids live_doc) live_doc response_doc swap_header [0, 0, 0] retry_absent
       = Inr (modify_at (\<lambda>parent existing. performSwap existing [MElem ''P'' [] [MText ''main'']] ''outerHTML'')
                None [0, 0, 1] live_doc,
              collect response_doc, TargetNode [0, 0, 1], ''outerHTML'',
              [MElem ''P'' [] [MText ''main'']], [DispatchEvent ''beforeUpdate''])"
proof -
  have nohdr: "headers_get [] ''X-Swap'' = None" by (simp add: headers_get_def)
  have a1: "getAttributeWithInheritance outer_button ''x-swap'' = Some ''outerHTML''"
    by (simp add: getAttributeWithInheritance_def INHERITABLE_ATTRIBUTES_def outer_button_def)
  have a2: "getAttributeWithInheritance retry_absent ''x-swap'' = None"
    by (simp add: getAttributeWithInheritance_def INHERITABLE_ATTRIBUTES_def retry_absent_def)
  have d: "defaultSwapOption engine_plain = ''innerHTML''" by (simp add: engine_plain_def)
  note t1 = response_overrides[of "[]" engine_plain outer_button]
  note t2 = response_overrides[of "[]" engine_plain retry_absent]
  note t3 = response_overrides[of swap_header engine_plain retry_absent "query_ids live_doc" "[0, 0, 1]"
      live_doc response_doc "collect response_doc" "[MElem ''P'' [] [MText ''main'']]" "[0, 0, 0]"]
  from t1 nohdr a1 have b1: "processResponse_swapOption engine_plain outer_button (headers_get [] ''X-Swap'') = ''outerHTML''"
    by (simp add: truthy_def)
  from t2 nohdr a2 d have b2: "processResponse_swapOption engine_plain retry_absent (headers_get [] ''X-Swap'') = ''innerHTML''"
    by (simp add: truthy_def)
  from t3 swap_header_values have b3: "processResponse_swapOption engine_plain retry_absent (headers_get swap_header ''X-Swap'') = ''outerHTML''"
    by (simp add: truthy_def)
  from t3 swap_header_values side_found response_doc_extract b3
  have b4: "processResponse_primary engine_plain (query_ids live_doc) live_doc response_doc swap_header [0, 0, 0] retry_absent
       = Inr (modify_at (\<lambda>parent existing. performSwap existing [MElem ''P'' [] [MText ''main'']] ''outerHTML'')
                None [0, 0, 1] live_doc,
              collect response_doc, TargetNode [0, 0, 1], ''outerHTML'',
              [MElem ''P'' [] [MText ''main'']], [DispatchEvent ''beforeUpdate''])"
    by (simp add: truthy_def del: modify_at.simps)
  from swap_header_values side_found a1 b1 b2 b4 show ?thesis by (simp del: modify_at.simps)
qed

text \<open>
  C3 as stated fails where the header is present with an empty value: the strategy used is
  then the element's, not the header's value.
\<close>

theorem empty_swap_header_counterexample:
  "headers_get empty_swap_header ''X-Swap'' = Some []
   \<and> processResponse_swapOption engine_plain outer_button (headers_get empty_swap_header ''X-Swap'')
       = ''outerHTML''"
proof -
  have h: "headers_get empty_swap_header ''X-Swap'' = Some []" by code_simp
  have a: "getAttributeWithInheritance outer_button ''x-swap'' = Some ''outerHTML''"
    by (simp add: getAttributeWithInheritance_def INHERITABLE_ATTRIBUTES_def outer_button_def)
  show ?thesis by (simp add: h a processResponse_swapOption_def truthy_def)
qed

section \<open>Properties of the triggered action\<close>












text \<open>
  The two ways a button that posts the form it stands in, with the form as its target,
  can go: without an \<open>onError\<close> callback the notice of the report empties the form, the
  button finds no form and no request is made; with one the request is made.
\<close>

lemma post_button_traces:
  "trigger engine_plain [] browser_form post_button
     = [ConsoleError ''Error:'', SetInnerHTML the_form (error_notice invalid_params),
        DispatchEvent ''beforeSend'', ConsoleError ''Request failed:'',
        SetInnerHTML the_form (error_notice
          (JsError ''Error'' ''Expected an HTMLFormElement for body serialization, but none found.''))]"
  "trigger engine_onError [] browser_form post_button
     = [CallOnError ''report'' invalid_params (Some post_button),
        DispatchEvent ''beforeSend'', NetworkCalls ''POST'' ''/save'' 1,
        DispatchEvent ''afterReceive'']"
  by code_simp+




end
